theory Spec2Isabelle
  imports Complex_Main "HOL-Library.AList"
begin

section \<open>JSON values and the engine's text library\<close>

text \<open>
  The bridge exchanges \<^verbatim>\<open>FJsonObject\<close> values. An object is a map from field names to
  values; \<^verbatim>\<open>Set...Field\<close> replaces the value of a field that is already there, which
  is what \<open>AList.update\<close> does on an association list with distinct keys.
  JSON numbers are doubles in the engine; they are reals here (no claim below depends on
  rounding).
\<close>

datatype json =
    JNull
  | JBool bool
  | JNumber real
  | JString string
  | JArray "json list"
  | JObject "(string \<times> json) list"

type_synonym json_object = "(string \<times> json) list"

definition SetField :: "json_object \<Rightarrow> string \<Rightarrow> json \<Rightarrow> json_object" where
  "SetField obj k v = AList.update k v obj"

definition SetBoolField :: "json_object \<Rightarrow> string \<Rightarrow> bool \<Rightarrow> json_object" where
  "SetBoolField obj k b = SetField obj k (JBool b)"

definition SetStringField :: "json_object \<Rightarrow> string \<Rightarrow> string \<Rightarrow> json_object" where
  "SetStringField obj k s = SetField obj k (JString s)"

definition SetNumberField :: "json_object \<Rightarrow> string \<Rightarrow> real \<Rightarrow> json_object" where
  "SetNumberField obj k x = SetField obj k (JNumber x)"

definition SetObjectField :: "json_object \<Rightarrow> string \<Rightarrow> json_object \<Rightarrow> json_object" where
  "SetObjectField obj k d = SetField obj k (JObject d)"

definition SetArrayField :: "json_object \<Rightarrow> string \<Rightarrow> json list \<Rightarrow> json_object" where
  "SetArrayField obj k xs = SetField obj k (JArray xs)"

text \<open>
  The engine functions the plugin calls but does not define are parameters of the model:
  \<^item> \<open>FoldCase\<close>: the per-character folding under which \<^verbatim>\<open>FString\<close>'s \<^verbatim>\<open>operator==\<close>,
    \<^verbatim>\<open>StartsWith\<close> and \<^verbatim>\<open>Contains\<close> compare (the identity for an exact comparison);
  \<^item> \<open>Deserialize\<close>: \<^verbatim>\<open>FJsonSerializer::Deserialize\<close> into an object pointer, \<open>None\<close>
    when it returns false or leaves the pointer invalid;
  \<^item> \<open>Serialize\<close>: \<^verbatim>\<open>FJsonSerializer::Serialize\<close> through a default \<^verbatim>\<open>TJsonWriter\<close>;
  \<^item> \<open>TryGetString\<close>, \<open>TryGetNumber\<close>: the accessors of \<^verbatim>\<open>FJsonValue\<close>;
  \<^item> \<open>Utf8ToString\<close>, \<open>StringToUtf8\<close>: \<^verbatim>\<open>UTF8_TO_TCHAR\<close> and \<^verbatim>\<open>FTCHARToUTF8\<close>.
\<close>

record engine_lib =
  FoldCase :: "char \<Rightarrow> char"
  Deserialize :: "string \<Rightarrow> json_object option"
  Serialize :: "json_object \<Rightarrow> string"
  TryGetString :: "json \<Rightarrow> string option"
  TryGetNumber :: "json \<Rightarrow> real option"
  Utf8ToString :: "string \<Rightarrow> string"
  StringToUtf8 :: "string \<Rightarrow> string"

definition FString_eq :: "engine_lib \<Rightarrow> string \<Rightarrow> string \<Rightarrow> bool" where
  "FString_eq lib a b = (map (FoldCase lib) a = map (FoldCase lib) b)"

definition StartsWith :: "engine_lib \<Rightarrow> string \<Rightarrow> string \<Rightarrow> bool" where
  "StartsWith lib s p = (take (length p) (map (FoldCase lib) s) = map (FoldCase lib) p)"

fun is_infix :: "'a list \<Rightarrow> 'a list \<Rightarrow> bool" where
  "is_infix p [] = (p = [])"
| "is_infix p (x # xs) = (take (length p) (x # xs) = p \<or> is_infix p xs)"

definition Contains :: "engine_lib \<Rightarrow> string \<Rightarrow> string \<Rightarrow> bool" where
  "Contains lib s p = is_infix (map (FoldCase lib) p) (map (FoldCase lib) s)"

definition TryGetStringField :: "engine_lib \<Rightarrow> json_object \<Rightarrow> string \<Rightarrow> string option" where
  "TryGetStringField lib obj k =
     (case map_of obj k of None \<Rightarrow> None | Some v \<Rightarrow> TryGetString lib v)"

definition GetStringField :: "engine_lib \<Rightarrow> json_object \<Rightarrow> string \<Rightarrow> string" where
  \<comment> \<open>an absent or unconvertible field reads as the empty string\<close>
  "GetStringField lib obj k =
     (case TryGetStringField lib obj k of None \<Rightarrow> [] | Some s \<Rightarrow> s)"

definition GetNumberField :: "engine_lib \<Rightarrow> json_object \<Rightarrow> string \<Rightarrow> real" where
  \<comment> \<open>an absent or unconvertible field reads as zero\<close>
  "GetNumberField lib obj k =
     (case map_of obj k of
        None \<Rightarrow> 0
      | Some v \<Rightarrow> (case TryGetNumber lib v of None \<Rightarrow> 0 | Some x \<Rightarrow> x))"

definition GetObjectField :: "json_object \<Rightarrow> string \<Rightarrow> json_object option" where
  \<comment> \<open>\<open>None\<close> is the invalid pointer returned for an absent or non-object field\<close>
  "GetObjectField obj k =
     (case map_of obj k of Some (JObject d) \<Rightarrow> Some d | _ \<Rightarrow> None)"

section \<open>The response envelope\<close>

text \<open>
  \<^verbatim>\<open>FGRIDBridge::CreateErrorResponse\<close> and \<^verbatim>\<open>CreateSuccessResponse\<close> (GRIDBridge.cpp).
  A \<^verbatim>\<open>TSharedPtr\<close> that may be invalid is an \<open>option\<close>.
\<close>

definition CreateErrorResponse :: "string \<Rightarrow> string \<Rightarrow> json_object" where
  "CreateErrorResponse ErrorCode ErrorMessage =
     (let Response = [];
          Response = SetBoolField Response ''success'' False;
          Response = SetStringField Response ''error_code'' ErrorCode;
          Response = SetStringField Response ''error'' ErrorMessage
      in Response)"

definition CreateSuccessResponse :: "json_object option \<Rightarrow> json_object" where
  "CreateSuccessResponse Data =
     (let Response = [];
          Response = SetBoolField Response ''success'' True
      in case Data of
           Some d \<Rightarrow> SetObjectField Response ''data'' d
         | None \<Rightarrow> Response)"

text \<open>
  Each of the six command classes has private \<^verbatim>\<open>CreateError\<close> and \<^verbatim>\<open>CreateSuccess\<close>
  methods with one and the same body; they are modelled once.
\<close>

definition CreateError :: "string \<Rightarrow> string \<Rightarrow> json_object" where
  "CreateError Code Message =
     (let Result = [];
          Result = SetBoolField Result ''success'' False;
          Result = SetStringField Result ''error_code'' Code;
          Result = SetStringField Result ''error'' Message
      in Result)"

definition CreateSuccess :: "json_object option \<Rightarrow> json_object" where
  "CreateSuccess Data =
     (let Result = [];
          Result = SetBoolField Result ''success'' True
      in case Data of
           Some d \<Rightarrow> SetObjectField Result ''data'' d
         | None \<Rightarrow> Result)"

section \<open>The editor behind the handlers\<close>

text \<open>
  What the handlers obtain from the editor, as the results of the engine calls they make.
  The editor's own change of state (a spawned actor, a saved asset) is outside the bridge
  and is not tracked: a handler is the response it builds from these results.
  The parameters a handler receives are a valid object (\<^verbatim>\<open>ProcessRequest\<close> replaces an
  invalid pointer by an empty object). The private methods that no \<^verbatim>\<open>HandleCommand\<close>
  calls (such as \<^verbatim>\<open>FActorCommands::GetProperty\<close>) are left out; each of them returns
  \<open>CreateError ''NOT_IMPLEMENTED''\<close> with a message.
\<close>

record actor =
  ActorLabel :: string
  ActorClassName :: string
  ActorLocation :: "real \<times> real \<times> real"

datatype blueprint_status = BS_UpToDate | BS_Error | BS_Other

record blueprint =
  BP_Name :: string
  BP_ParentClass :: "string option"
  BP_Status :: blueprint_status
  BP_SCSNodes :: "nat option"
  BP_NewVariables :: nat
  BP_FunctionGraphs :: nat

record asset_data =
  AssetName :: string
  ObjectPathString :: string
  AssetClassName :: string

record engine =
  EditorWorld :: "actor list option"
    \<comment> \<open>\<^verbatim>\<open>GEditor ? GEditor->GetEditorWorldContext().World() : nullptr\<close>, with its actors\<close>
  FindClass :: "string \<Rightarrow> string option"
    \<comment> \<open>\<^verbatim>\<open>FindObject<UClass>(ANY_PACKAGE, Name)\<close>, a class by its name\<close>
  StaticLoadBlueprintClass :: "string \<Rightarrow> string option"
    \<comment> \<open>the generated class of the blueprint loaded from a path, if both exist\<close>
  World_SpawnActor :: "string \<Rightarrow> real \<times> real \<times> real \<Rightarrow> actor option"
  LoadAsset_Blueprint :: "string \<Rightarrow> blueprint option"
  StatusAfterCompile :: "blueprint \<Rightarrow> blueprint_status"
  ObjectPathToPackageName :: "string \<Rightarrow> string"
  GetLongPackageAssetName :: "string \<Rightarrow> string"
  FactoryCreateBlueprint :: "string \<Rightarrow> string \<Rightarrow> string \<Rightarrow> bool"
    \<comment> \<open>package, asset name, parent class: whether the factory returned a blueprint\<close>
  FactoryCreateMaterial :: "string \<Rightarrow> string \<Rightarrow> bool"
  GetAssets :: "string \<Rightarrow> asset_data list"
    \<comment> \<open>the assets under /Game, filtered by class path when the type is not empty\<close>

section \<open>Actor commands (ActorCommands.cpp)\<close>

definition FActorCommands_ListActors :: "engine \<Rightarrow> json_object \<Rightarrow> json_object" where
  "FActorCommands_ListActors e Params =
     (case EditorWorld e of
        None \<Rightarrow> CreateError ''NO_WORLD'' ''No active world''
      | Some actors \<Rightarrow>
          (let ActorArray =
                 map (\<lambda>Actor.
                   (let ActorObj = [];
                        ActorObj = SetStringField ActorObj ''name'' (ActorLabel Actor);
                        ActorObj = SetStringField ActorObj ''class'' (ActorClassName Actor);
                        ActorObj = SetNumberField ActorObj ''x'' (fst (ActorLocation Actor));
                        ActorObj = SetNumberField ActorObj ''y'' (fst (snd (ActorLocation Actor)));
                        ActorObj = SetNumberField ActorObj ''z'' (snd (snd (ActorLocation Actor)))
                    in JObject ActorObj)) actors;
               Data = [];
               Data = SetArrayField Data ''actors'' ActorArray;
               Data = SetNumberField Data ''count'' (real (length ActorArray))
           in CreateSuccess (Some Data)))"

definition FActorCommands_FindActors :: "engine_lib \<Rightarrow> engine \<Rightarrow> json_object \<Rightarrow> json_object" where
  "FActorCommands_FindActors lib e Params =
     (let Pattern = GetStringField lib Params ''pattern'';
          ClassName = GetStringField lib Params ''class''
      in case EditorWorld e of
           None \<Rightarrow> CreateError ''NO_WORLD'' ''No active world''
         | Some actors \<Rightarrow>
             (let matching =
                    filter (\<lambda>Actor.
                      \<not> (Pattern \<noteq> [] \<and> \<not> Contains lib (ActorLabel Actor) Pattern) \<and>
                      \<not> (ClassName \<noteq> [] \<and> \<not> FString_eq lib (ActorClassName Actor) ClassName))
                      actors;
                  ActorArray =
                    map (\<lambda>Actor.
                      (let ActorObj = [];
                           ActorObj = SetStringField ActorObj ''name'' (ActorLabel Actor);
                           ActorObj = SetStringField ActorObj ''class'' (ActorClassName Actor)
                       in JObject ActorObj)) matching;
                  Data = [];
                  Data = SetArrayField Data ''actors'' ActorArray;
                  Data = SetNumberField Data ''count'' (real (length ActorArray))
              in CreateSuccess (Some Data)))"

definition FActorCommands_SpawnActor :: "engine_lib \<Rightarrow> engine \<Rightarrow> json_object \<Rightarrow> json_object" where
  "FActorCommands_SpawnActor lib e Params =
     (let ClassName = GetStringField lib Params ''class'';
          BlueprintPath = GetStringField lib Params ''blueprint'';
          X = GetNumberField lib Params ''x'';
          Y = GetNumberField lib Params ''y'';
          Z = GetNumberField lib Params ''z''
      in case EditorWorld e of
           None \<Rightarrow> CreateError ''NO_WORLD'' ''No active world''
         | Some actors \<Rightarrow>
             (let ActorClass =
                    (if BlueprintPath \<noteq> [] then StaticLoadBlueprintClass e BlueprintPath
                     else if ClassName \<noteq> [] then FindClass e ClassName
                     else None);
                  ActorClass =
                    (case ActorClass of None \<Rightarrow> ''StaticMeshActor'' | Some c \<Rightarrow> c)
              in case World_SpawnActor e ActorClass (X, Y, Z) of
                   None \<Rightarrow> CreateError ''SPAWN_FAILED'' ''Failed to spawn actor''
                 | Some NewActor \<Rightarrow>
                     (let Data = [];
                          Data = SetStringField Data ''name'' (ActorLabel NewActor);
                          Data = SetStringField Data ''class'' (ActorClassName NewActor);
                          Data = SetNumberField Data ''x'' X;
                          Data = SetNumberField Data ''y'' Y;
                          Data = SetNumberField Data ''z'' Z
                      in CreateSuccess (Some Data))))"

definition FActorCommands_DeleteActor :: "json_object \<Rightarrow> json_object" where
  "FActorCommands_DeleteActor Params =
     CreateError ''NOT_IMPLEMENTED'' ''DeleteActor not yet implemented''"

definition FActorCommands_GetActorInfo :: "json_object \<Rightarrow> json_object" where
  "FActorCommands_GetActorInfo Params =
     CreateError ''NOT_IMPLEMENTED'' ''GetActorInfo not yet implemented''"

definition FActorCommands_GetTransform :: "json_object \<Rightarrow> json_object" where
  "FActorCommands_GetTransform Params =
     CreateError ''NOT_IMPLEMENTED'' ''GetTransform not yet implemented''"

definition FActorCommands_SetTransform :: "json_object \<Rightarrow> json_object" where
  "FActorCommands_SetTransform Params =
     CreateError ''NOT_IMPLEMENTED'' ''SetTransform not yet implemented''"

definition FActorCommands_SetLocation :: "json_object \<Rightarrow> json_object" where
  "FActorCommands_SetLocation Params =
     CreateError ''NOT_IMPLEMENTED'' ''SetLocation not yet implemented''"

definition FActorCommands_SetRotation :: "json_object \<Rightarrow> json_object" where
  "FActorCommands_SetRotation Params =
     CreateError ''NOT_IMPLEMENTED'' ''SetRotation not yet implemented''"

definition FActorCommands_SetScale :: "json_object \<Rightarrow> json_object" where
  "FActorCommands_SetScale Params =
     CreateError ''NOT_IMPLEMENTED'' ''SetScale not yet implemented''"

definition FActorCommands_FocusActor :: "json_object \<Rightarrow> json_object" where
  "FActorCommands_FocusActor Params =
     CreateError ''NOT_IMPLEMENTED'' ''FocusActor not yet implemented''"

definition FActorCommands_SelectActor :: "json_object \<Rightarrow> json_object" where
  "FActorCommands_SelectActor Params =
     CreateError ''NOT_IMPLEMENTED'' ''SelectActor not yet implemented''"

definition FActorCommands_RenameActor :: "json_object \<Rightarrow> json_object" where
  "FActorCommands_RenameActor Params =
     CreateError ''NOT_IMPLEMENTED'' ''RenameActor not yet implemented''"

definition FActorCommands_HandleCommand ::
  "engine_lib \<Rightarrow> engine \<Rightarrow> string \<Rightarrow> json_object \<Rightarrow> json_object" where
  "FActorCommands_HandleCommand lib e CommandType Params =
     (if FString_eq lib CommandType ''actor_list'' then FActorCommands_ListActors e Params
      else if FString_eq lib CommandType ''actor_find'' then FActorCommands_FindActors lib e Params
      else if FString_eq lib CommandType ''actor_spawn'' then FActorCommands_SpawnActor lib e Params
      else if FString_eq lib CommandType ''actor_delete'' then FActorCommands_DeleteActor Params
      else if FString_eq lib CommandType ''actor_get_info'' then FActorCommands_GetActorInfo Params
      else if FString_eq lib CommandType ''actor_get_transform'' then FActorCommands_GetTransform Params
      else if FString_eq lib CommandType ''actor_set_transform'' then FActorCommands_SetTransform Params
      else if FString_eq lib CommandType ''actor_set_location'' then FActorCommands_SetLocation Params
      else if FString_eq lib CommandType ''actor_set_rotation'' then FActorCommands_SetRotation Params
      else if FString_eq lib CommandType ''actor_set_scale'' then FActorCommands_SetScale Params
      else if FString_eq lib CommandType ''actor_focus'' then FActorCommands_FocusActor Params
      else if FString_eq lib CommandType ''actor_select'' then FActorCommands_SelectActor Params
      else if FString_eq lib CommandType ''actor_rename'' then FActorCommands_RenameActor Params
      else CreateError ''UNKNOWN_COMMAND'' (''Unknown actor command: '' @ CommandType))"

section \<open>Blueprint commands (BlueprintCommands.cpp)\<close>

definition FBlueprintCommands_LoadBlueprint :: "engine \<Rightarrow> string \<Rightarrow> blueprint option" where
  "FBlueprintCommands_LoadBlueprint e Path = LoadAsset_Blueprint e Path"

definition FBlueprintCommands_CreateBlueprint ::
  "engine_lib \<Rightarrow> engine \<Rightarrow> json_object \<Rightarrow> json_object" where
  "FBlueprintCommands_CreateBlueprint lib e Params =
     (let Path = GetStringField lib Params ''path'';
          ParentClass = GetStringField lib Params ''parent_class''
      in if Path = [] then CreateError ''MISSING_PATH'' ''Blueprint path is required''
         else
           (let Parent =
                  (if ParentClass \<noteq> [] then
                     (case FindClass e ParentClass of Some FoundClass \<Rightarrow> FoundClass | None \<Rightarrow> ''Actor'')
                   else ''Actor'');
                PackagePath = ObjectPathToPackageName e Path;
                AssetName = GetLongPackageAssetName e Path
            in if \<not> FactoryCreateBlueprint e PackagePath AssetName Parent
               then CreateError ''CREATE_FAILED'' ''Failed to create blueprint''
               else
                 (let Data = [];
                      Data = SetStringField Data ''path'' Path;
                      Data = SetStringField Data ''name'' AssetName;
                      Data = SetStringField Data ''parent_class'' Parent
                  in CreateSuccess (Some Data))))"

definition FBlueprintCommands_CompileBlueprint ::
  "engine_lib \<Rightarrow> engine \<Rightarrow> json_object \<Rightarrow> json_object" where
  "FBlueprintCommands_CompileBlueprint lib e Params =
     (let Path = GetStringField lib Params ''path''
      in case FBlueprintCommands_LoadBlueprint e Path of
           None \<Rightarrow> CreateError ''NOT_FOUND'' (''Blueprint not found: '' @ Path)
         | Some Blueprint \<Rightarrow>
             (let Data = [];
                  Data = SetStringField Data ''path'' Path;
                  Data = SetBoolField Data ''compiled'' True;
                  Data = SetBoolField Data ''has_errors'' (StatusAfterCompile e Blueprint = BS_Error)
              in CreateSuccess (Some Data)))"

definition FBlueprintCommands_GetBlueprintInfo ::
  "engine_lib \<Rightarrow> engine \<Rightarrow> json_object \<Rightarrow> json_object" where
  "FBlueprintCommands_GetBlueprintInfo lib e Params =
     (let Path = GetStringField lib Params ''path''
      in case FBlueprintCommands_LoadBlueprint e Path of
           None \<Rightarrow> CreateError ''NOT_FOUND'' (''Blueprint not found: '' @ Path)
         | Some Blueprint \<Rightarrow>
             (let Data = [];
                  Data = SetStringField Data ''path'' Path;
                  Data = SetStringField Data ''name'' (BP_Name Blueprint);
                  Data = SetStringField Data ''parent_class''
                           (case BP_ParentClass Blueprint of Some c \<Rightarrow> c | None \<Rightarrow> ''None'');
                  Data = SetStringField Data ''status''
                           (if BP_Status Blueprint = BS_UpToDate then ''UpToDate'' else ''NeedsCompile'');
                  Data = (case BP_SCSNodes Blueprint of
                            Some n \<Rightarrow> SetNumberField Data ''component_count'' (real n)
                          | None \<Rightarrow> Data);
                  Data = SetNumberField Data ''variable_count'' (real (BP_NewVariables Blueprint));
                  FunctionCount = BP_FunctionGraphs Blueprint;
                  Data = SetNumberField Data ''function_count'' (real FunctionCount)
              in CreateSuccess (Some Data)))"

definition FBlueprintCommands_ReparentBlueprint :: "json_object \<Rightarrow> json_object" where
  "FBlueprintCommands_ReparentBlueprint Params =
     CreateError ''NOT_IMPLEMENTED'' ''ReparentBlueprint not yet implemented''"

definition FBlueprintCommands_GetProperty :: "json_object \<Rightarrow> json_object" where
  "FBlueprintCommands_GetProperty Params =
     CreateError ''NOT_IMPLEMENTED'' ''GetProperty not yet implemented''"

definition FBlueprintCommands_SetProperty :: "json_object \<Rightarrow> json_object" where
  "FBlueprintCommands_SetProperty Params =
     CreateError ''NOT_IMPLEMENTED'' ''SetProperty not yet implemented''"

definition FBlueprintCommands_AddComponent :: "json_object \<Rightarrow> json_object" where
  "FBlueprintCommands_AddComponent Params =
     CreateError ''NOT_IMPLEMENTED'' ''AddComponent not yet implemented''"

definition FBlueprintCommands_RemoveComponent :: "json_object \<Rightarrow> json_object" where
  "FBlueprintCommands_RemoveComponent Params =
     CreateError ''NOT_IMPLEMENTED'' ''RemoveComponent not yet implemented''"

definition FBlueprintCommands_GetComponentHierarchy :: "json_object \<Rightarrow> json_object" where
  "FBlueprintCommands_GetComponentHierarchy Params =
     CreateError ''NOT_IMPLEMENTED'' ''GetComponentHierarchy not yet implemented''"

definition FBlueprintCommands_AddVariable :: "json_object \<Rightarrow> json_object" where
  "FBlueprintCommands_AddVariable Params =
     CreateError ''NOT_IMPLEMENTED'' ''AddVariable not yet implemented''"

definition FBlueprintCommands_RemoveVariable :: "json_object \<Rightarrow> json_object" where
  "FBlueprintCommands_RemoveVariable Params =
     CreateError ''NOT_IMPLEMENTED'' ''RemoveVariable not yet implemented''"

definition FBlueprintCommands_ListVariables :: "json_object \<Rightarrow> json_object" where
  "FBlueprintCommands_ListVariables Params =
     CreateError ''NOT_IMPLEMENTED'' ''ListVariables not yet implemented''"

definition FBlueprintCommands_AddFunction :: "json_object \<Rightarrow> json_object" where
  "FBlueprintCommands_AddFunction Params =
     CreateError ''NOT_IMPLEMENTED'' ''AddFunction not yet implemented''"

definition FBlueprintCommands_RemoveFunction :: "json_object \<Rightarrow> json_object" where
  "FBlueprintCommands_RemoveFunction Params =
     CreateError ''NOT_IMPLEMENTED'' ''RemoveFunction not yet implemented''"

definition FBlueprintCommands_ListFunctions :: "json_object \<Rightarrow> json_object" where
  "FBlueprintCommands_ListFunctions Params =
     CreateError ''NOT_IMPLEMENTED'' ''ListFunctions not yet implemented''"

definition FBlueprintCommands_DiscoverNodes :: "json_object \<Rightarrow> json_object" where
  "FBlueprintCommands_DiscoverNodes Params =
     CreateError ''NOT_IMPLEMENTED'' ''DiscoverNodes not yet implemented''"

definition FBlueprintCommands_CreateNode :: "json_object \<Rightarrow> json_object" where
  "FBlueprintCommands_CreateNode Params =
     CreateError ''NOT_IMPLEMENTED'' ''CreateNode not yet implemented''"

definition FBlueprintCommands_DeleteNode :: "json_object \<Rightarrow> json_object" where
  "FBlueprintCommands_DeleteNode Params =
     CreateError ''NOT_IMPLEMENTED'' ''DeleteNode not yet implemented''"

definition FBlueprintCommands_ConnectNodes :: "json_object \<Rightarrow> json_object" where
  "FBlueprintCommands_ConnectNodes Params =
     CreateError ''NOT_IMPLEMENTED'' ''ConnectNodes not yet implemented''"

definition FBlueprintCommands_ListNodes :: "json_object \<Rightarrow> json_object" where
  "FBlueprintCommands_ListNodes Params =
     CreateError ''NOT_IMPLEMENTED'' ''ListNodes not yet implemented''"

definition FBlueprintCommands_HandleCommand ::
  "engine_lib \<Rightarrow> engine \<Rightarrow> string \<Rightarrow> json_object \<Rightarrow> json_object" where
  "FBlueprintCommands_HandleCommand lib e CommandType Params =
     (if FString_eq lib CommandType ''blueprint_create'' then FBlueprintCommands_CreateBlueprint lib e Params
      else if FString_eq lib CommandType ''blueprint_compile'' then FBlueprintCommands_CompileBlueprint lib e Params
      else if FString_eq lib CommandType ''blueprint_get_info'' then FBlueprintCommands_GetBlueprintInfo lib e Params
      else if FString_eq lib CommandType ''blueprint_reparent'' then FBlueprintCommands_ReparentBlueprint Params
      else if FString_eq lib CommandType ''blueprint_get_property'' then FBlueprintCommands_GetProperty Params
      else if FString_eq lib CommandType ''blueprint_set_property'' then FBlueprintCommands_SetProperty Params
      else if FString_eq lib CommandType ''blueprint_add_component'' then FBlueprintCommands_AddComponent Params
      else if FString_eq lib CommandType ''blueprint_remove_component'' then FBlueprintCommands_RemoveComponent Params
      else if FString_eq lib CommandType ''blueprint_get_hierarchy'' then FBlueprintCommands_GetComponentHierarchy Params
      else if FString_eq lib CommandType ''blueprint_add_variable'' then FBlueprintCommands_AddVariable Params
      else if FString_eq lib CommandType ''blueprint_remove_variable'' then FBlueprintCommands_RemoveVariable Params
      else if FString_eq lib CommandType ''blueprint_list_variables'' then FBlueprintCommands_ListVariables Params
      else if FString_eq lib CommandType ''blueprint_add_function'' then FBlueprintCommands_AddFunction Params
      else if FString_eq lib CommandType ''blueprint_remove_function'' then FBlueprintCommands_RemoveFunction Params
      else if FString_eq lib CommandType ''blueprint_list_functions'' then FBlueprintCommands_ListFunctions Params
      else if FString_eq lib CommandType ''blueprint_discover_nodes'' then FBlueprintCommands_DiscoverNodes Params
      else if FString_eq lib CommandType ''blueprint_create_node'' then FBlueprintCommands_CreateNode Params
      else if FString_eq lib CommandType ''blueprint_delete_node'' then FBlueprintCommands_DeleteNode Params
      else if FString_eq lib CommandType ''blueprint_connect_nodes'' then FBlueprintCommands_ConnectNodes Params
      else if FString_eq lib CommandType ''blueprint_list_nodes'' then FBlueprintCommands_ListNodes Params
      else CreateError ''UNKNOWN_COMMAND'' (''Unknown blueprint command: '' @ CommandType))"

section \<open>Material commands (MaterialCommands.cpp)\<close>

definition FMaterialCommands_CreateMaterial ::
  "engine_lib \<Rightarrow> engine \<Rightarrow> json_object \<Rightarrow> json_object" where
  "FMaterialCommands_CreateMaterial lib e Params =
     (let Path = GetStringField lib Params ''path''
      in if Path = [] then CreateError ''MISSING_PATH'' ''Material path required''
         else
           (let PackagePath = ObjectPathToPackageName e Path;
                AssetName = GetLongPackageAssetName e Path
            in if \<not> FactoryCreateMaterial e PackagePath AssetName
               then CreateError ''CREATE_FAILED'' ''Failed to create material''
               else
                 (let Data = [];
                      Data = SetStringField Data ''path'' Path;
                      Data = SetStringField Data ''name'' AssetName
                  in CreateSuccess (Some Data))))"

definition FMaterialCommands_CreateMaterialInstance :: "json_object \<Rightarrow> json_object" where
  "FMaterialCommands_CreateMaterialInstance Params =
     CreateError ''NOT_IMPLEMENTED'' ''Not implemented''"

definition FMaterialCommands_GetMaterialInfo :: "json_object \<Rightarrow> json_object" where
  "FMaterialCommands_GetMaterialInfo Params =
     CreateError ''NOT_IMPLEMENTED'' ''Not implemented''"

definition FMaterialCommands_Compile :: "json_object \<Rightarrow> json_object" where
  "FMaterialCommands_Compile Params =
     CreateError ''NOT_IMPLEMENTED'' ''Not implemented''"

definition FMaterialCommands_Save :: "json_object \<Rightarrow> json_object" where
  "FMaterialCommands_Save Params =
     CreateError ''NOT_IMPLEMENTED'' ''Not implemented''"

definition FMaterialCommands_HandleCommand ::
  "engine_lib \<Rightarrow> engine \<Rightarrow> string \<Rightarrow> json_object \<Rightarrow> json_object" where
  "FMaterialCommands_HandleCommand lib e CommandType Params =
     (if FString_eq lib CommandType ''material_create'' then FMaterialCommands_CreateMaterial lib e Params
      else if FString_eq lib CommandType ''material_create_instance'' then FMaterialCommands_CreateMaterialInstance Params
      else if FString_eq lib CommandType ''material_get_info'' then FMaterialCommands_GetMaterialInfo Params
      else if FString_eq lib CommandType ''material_compile'' then FMaterialCommands_Compile Params
      else if FString_eq lib CommandType ''material_save'' then FMaterialCommands_Save Params
      else CreateError ''UNKNOWN_COMMAND'' (''Unknown material command: '' @ CommandType))"

section \<open>Widget commands (WidgetCommands.cpp)\<close>

definition FWidgetCommands_CreateWidgetBlueprint :: "json_object \<Rightarrow> json_object" where
  "FWidgetCommands_CreateWidgetBlueprint Params =
     CreateError ''NOT_IMPLEMENTED'' ''Not implemented''"

definition FWidgetCommands_ListComponents :: "json_object \<Rightarrow> json_object" where
  "FWidgetCommands_ListComponents Params =
     CreateError ''NOT_IMPLEMENTED'' ''Not implemented''"

definition FWidgetCommands_AddComponent :: "json_object \<Rightarrow> json_object" where
  "FWidgetCommands_AddComponent Params =
     CreateError ''NOT_IMPLEMENTED'' ''Not implemented''"

definition FWidgetCommands_RemoveComponent :: "json_object \<Rightarrow> json_object" where
  "FWidgetCommands_RemoveComponent Params =
     CreateError ''NOT_IMPLEMENTED'' ''Not implemented''"

definition FWidgetCommands_GetProperty :: "json_object \<Rightarrow> json_object" where
  "FWidgetCommands_GetProperty Params =
     CreateError ''NOT_IMPLEMENTED'' ''Not implemented''"

definition FWidgetCommands_SetProperty :: "json_object \<Rightarrow> json_object" where
  "FWidgetCommands_SetProperty Params =
     CreateError ''NOT_IMPLEMENTED'' ''Not implemented''"

definition FWidgetCommands_ListProperties :: "json_object \<Rightarrow> json_object" where
  "FWidgetCommands_ListProperties Params =
     CreateError ''NOT_IMPLEMENTED'' ''Not implemented''"

definition FWidgetCommands_DiscoverWidgetTypes :: "json_object \<Rightarrow> json_object" where
  "FWidgetCommands_DiscoverWidgetTypes Params =
     CreateError ''NOT_IMPLEMENTED'' ''Not implemented''"

definition FWidgetCommands_ValidateHierarchy :: "json_object \<Rightarrow> json_object" where
  "FWidgetCommands_ValidateHierarchy Params =
     CreateError ''NOT_IMPLEMENTED'' ''Not implemented''"

definition FWidgetCommands_GetAvailableEvents :: "json_object \<Rightarrow> json_object" where
  "FWidgetCommands_GetAvailableEvents Params =
     CreateError ''NOT_IMPLEMENTED'' ''Not implemented''"

definition FWidgetCommands_BindEvents :: "json_object \<Rightarrow> json_object" where
  "FWidgetCommands_BindEvents Params =
     CreateError ''NOT_IMPLEMENTED'' ''Not implemented''"

definition FWidgetCommands_HandleCommand ::
  "engine_lib \<Rightarrow> engine \<Rightarrow> string \<Rightarrow> json_object \<Rightarrow> json_object" where
  "FWidgetCommands_HandleCommand lib e CommandType Params =
     (if FString_eq lib CommandType ''widget_create'' then FWidgetCommands_CreateWidgetBlueprint Params
      else if FString_eq lib CommandType ''widget_list_components'' then FWidgetCommands_ListComponents Params
      else if FString_eq lib CommandType ''widget_add_component'' then FWidgetCommands_AddComponent Params
      else if FString_eq lib CommandType ''widget_remove_component'' then FWidgetCommands_RemoveComponent Params
      else if FString_eq lib CommandType ''widget_get_property'' then FWidgetCommands_GetProperty Params
      else if FString_eq lib CommandType ''widget_set_property'' then FWidgetCommands_SetProperty Params
      else if FString_eq lib CommandType ''widget_list_properties'' then FWidgetCommands_ListProperties Params
      else if FString_eq lib CommandType ''widget_discover_types'' then FWidgetCommands_DiscoverWidgetTypes Params
      else if FString_eq lib CommandType ''widget_validate'' then FWidgetCommands_ValidateHierarchy Params
      else if FString_eq lib CommandType ''widget_get_events'' then FWidgetCommands_GetAvailableEvents Params
      else if FString_eq lib CommandType ''widget_bind_events'' then FWidgetCommands_BindEvents Params
      else CreateError ''UNKNOWN_COMMAND'' (''Unknown widget command: '' @ CommandType))"

section \<open>Asset commands (AssetCommands.cpp)\<close>

text \<open>
  The loop of \<^verbatim>\<open>Search\<close> over the registry's assets: an asset whose name does not contain
  a non-empty query is skipped (\<^verbatim>\<open>continue\<close>), and the loop stops once a hundred results
  are collected (\<^verbatim>\<open>break\<close>).
\<close>

fun FAssetCommands_Search_loop ::
  "engine_lib \<Rightarrow> string \<Rightarrow> asset_data list \<Rightarrow> json list \<Rightarrow> json list" where
  "FAssetCommands_Search_loop lib Query [] ResultArray = ResultArray"
| "FAssetCommands_Search_loop lib Query (Asset # Assets) ResultArray =
     (if Query \<noteq> [] \<and> \<not> Contains lib (AssetName Asset) Query
      then FAssetCommands_Search_loop lib Query Assets ResultArray
      else
        (let AssetObj = [];
             AssetObj = SetStringField AssetObj ''name'' (AssetName Asset);
             AssetObj = SetStringField AssetObj ''path'' (ObjectPathString Asset);
             AssetObj = SetStringField AssetObj ''class'' (AssetClassName Asset);
             ResultArray = ResultArray @ [JObject AssetObj]
         in if length ResultArray \<ge> 100 then ResultArray
            else FAssetCommands_Search_loop lib Query Assets ResultArray))"

definition FAssetCommands_Search :: "engine_lib \<Rightarrow> engine \<Rightarrow> json_object \<Rightarrow> json_object" where
  "FAssetCommands_Search lib e Params =
     (let Query = GetStringField lib Params ''query'';
          Type = GetStringField lib Params ''type'';
          Assets = GetAssets e Type;
          ResultArray = FAssetCommands_Search_loop lib Query Assets [];
          Data = [];
          Data = SetArrayField Data ''assets'' ResultArray;
          Data = SetNumberField Data ''count'' (real (length ResultArray))
      in CreateSuccess (Some Data))"

definition FAssetCommands_ImportTexture :: "json_object \<Rightarrow> json_object" where
  "FAssetCommands_ImportTexture Params =
     CreateError ''NOT_IMPLEMENTED'' ''Not implemented''"

definition FAssetCommands_ExportTexture :: "json_object \<Rightarrow> json_object" where
  "FAssetCommands_ExportTexture Params =
     CreateError ''NOT_IMPLEMENTED'' ''Not implemented''"

definition FAssetCommands_Delete :: "json_object \<Rightarrow> json_object" where
  "FAssetCommands_Delete Params =
     CreateError ''NOT_IMPLEMENTED'' ''Not implemented''"

definition FAssetCommands_Duplicate :: "json_object \<Rightarrow> json_object" where
  "FAssetCommands_Duplicate Params =
     CreateError ''NOT_IMPLEMENTED'' ''Not implemented''"

definition FAssetCommands_Save :: "json_object \<Rightarrow> json_object" where
  "FAssetCommands_Save Params =
     CreateError ''NOT_IMPLEMENTED'' ''Not implemented''"

definition FAssetCommands_SaveAll :: "json_object \<Rightarrow> json_object" where
  "FAssetCommands_SaveAll Params =
     CreateError ''NOT_IMPLEMENTED'' ''Not implemented''"

definition FAssetCommands_ListReferences :: "json_object \<Rightarrow> json_object" where
  "FAssetCommands_ListReferences Params =
     CreateError ''NOT_IMPLEMENTED'' ''Not implemented''"

definition FAssetCommands_Open :: "json_object \<Rightarrow> json_object" where
  "FAssetCommands_Open Params =
     CreateError ''NOT_IMPLEMENTED'' ''Not implemented''"

definition FAssetCommands_HandleCommand ::
  "engine_lib \<Rightarrow> engine \<Rightarrow> string \<Rightarrow> json_object \<Rightarrow> json_object" where
  "FAssetCommands_HandleCommand lib e CommandType Params =
     (if FString_eq lib CommandType ''asset_search'' then FAssetCommands_Search lib e Params
      else if FString_eq lib CommandType ''asset_import_texture'' then FAssetCommands_ImportTexture Params
      else if FString_eq lib CommandType ''asset_export_texture'' then FAssetCommands_ExportTexture Params
      else if FString_eq lib CommandType ''asset_delete'' then FAssetCommands_Delete Params
      else if FString_eq lib CommandType ''asset_duplicate'' then FAssetCommands_Duplicate Params
      else if FString_eq lib CommandType ''asset_save'' then FAssetCommands_Save Params
      else if FString_eq lib CommandType ''asset_save_all'' then FAssetCommands_SaveAll Params
      else if FString_eq lib CommandType ''asset_list_references'' then FAssetCommands_ListReferences Params
      else if FString_eq lib CommandType ''asset_open'' then FAssetCommands_Open Params
      else CreateError ''UNKNOWN_COMMAND'' (''Unknown asset command: '' @ CommandType))"

section \<open>Input commands (InputCommands.cpp)\<close>

definition FInputCommands_CreateAction :: "json_object \<Rightarrow> json_object" where
  "FInputCommands_CreateAction Params =
     CreateError ''NOT_IMPLEMENTED'' ''Not implemented''"

definition FInputCommands_ListActions :: "json_object \<Rightarrow> json_object" where
  "FInputCommands_ListActions Params =
     CreateError ''NOT_IMPLEMENTED'' ''Not implemented''"

definition FInputCommands_CreateMappingContext :: "json_object \<Rightarrow> json_object" where
  "FInputCommands_CreateMappingContext Params =
     CreateError ''NOT_IMPLEMENTED'' ''Not implemented''"

definition FInputCommands_ListMappingContexts :: "json_object \<Rightarrow> json_object" where
  "FInputCommands_ListMappingContexts Params =
     CreateError ''NOT_IMPLEMENTED'' ''Not implemented''"

definition FInputCommands_AddKeyMapping :: "json_object \<Rightarrow> json_object" where
  "FInputCommands_AddKeyMapping Params =
     CreateError ''NOT_IMPLEMENTED'' ''Not implemented''"

definition FInputCommands_RemoveKeyMapping :: "json_object \<Rightarrow> json_object" where
  "FInputCommands_RemoveKeyMapping Params =
     CreateError ''NOT_IMPLEMENTED'' ''Not implemented''"

definition FInputCommands_GetMappings :: "json_object \<Rightarrow> json_object" where
  "FInputCommands_GetMappings Params =
     CreateError ''NOT_IMPLEMENTED'' ''Not implemented''"

definition FInputCommands_GetAvailableKeys :: "json_object \<Rightarrow> json_object" where
  "FInputCommands_GetAvailableKeys Params =
     CreateError ''NOT_IMPLEMENTED'' ''Not implemented''"

definition FInputCommands_AddModifier :: "json_object \<Rightarrow> json_object" where
  "FInputCommands_AddModifier Params =
     CreateError ''NOT_IMPLEMENTED'' ''Not implemented''"

definition FInputCommands_RemoveModifier :: "json_object \<Rightarrow> json_object" where
  "FInputCommands_RemoveModifier Params =
     CreateError ''NOT_IMPLEMENTED'' ''Not implemented''"

definition FInputCommands_AddTrigger :: "json_object \<Rightarrow> json_object" where
  "FInputCommands_AddTrigger Params =
     CreateError ''NOT_IMPLEMENTED'' ''Not implemented''"

definition FInputCommands_RemoveTrigger :: "json_object \<Rightarrow> json_object" where
  "FInputCommands_RemoveTrigger Params =
     CreateError ''NOT_IMPLEMENTED'' ''Not implemented''"

definition FInputCommands_HandleCommand ::
  "engine_lib \<Rightarrow> engine \<Rightarrow> string \<Rightarrow> json_object \<Rightarrow> json_object" where
  "FInputCommands_HandleCommand lib e CommandType Params =
     (if FString_eq lib CommandType ''input_create_action'' then FInputCommands_CreateAction Params
      else if FString_eq lib CommandType ''input_list_actions'' then FInputCommands_ListActions Params
      else if FString_eq lib CommandType ''input_create_context'' then FInputCommands_CreateMappingContext Params
      else if FString_eq lib CommandType ''input_list_contexts'' then FInputCommands_ListMappingContexts Params
      else if FString_eq lib CommandType ''input_add_mapping'' then FInputCommands_AddKeyMapping Params
      else if FString_eq lib CommandType ''input_remove_mapping'' then FInputCommands_RemoveKeyMapping Params
      else if FString_eq lib CommandType ''input_get_mappings'' then FInputCommands_GetMappings Params
      else if FString_eq lib CommandType ''input_get_keys'' then FInputCommands_GetAvailableKeys Params
      else if FString_eq lib CommandType ''input_add_modifier'' then FInputCommands_AddModifier Params
      else if FString_eq lib CommandType ''input_remove_modifier'' then FInputCommands_RemoveModifier Params
      else if FString_eq lib CommandType ''input_add_trigger'' then FInputCommands_AddTrigger Params
      else if FString_eq lib CommandType ''input_remove_trigger'' then FInputCommands_RemoveTrigger Params
      else CreateError ''UNKNOWN_COMMAND'' (''Unknown input command: '' @ CommandType))"

section \<open>Routing (GRIDBridge.cpp)\<close>

definition RouteCommand ::
  "engine_lib \<Rightarrow> engine \<Rightarrow> string \<Rightarrow> json_object \<Rightarrow> json_object" where
  "RouteCommand lib e CommandType Params =
     (if FString_eq lib CommandType ''check_connection'' then
        (let Result = [];
             Result = SetBoolField Result ''connected'' True;
             Result = SetStringField Result ''engine_version'' ''5.5'';
             Result = SetStringField Result ''plugin_version'' ''1.0.0''
         in CreateSuccessResponse (Some Result))
      else if StartsWith lib CommandType ''blueprint_'' then
        FBlueprintCommands_HandleCommand lib e CommandType Params
      else if StartsWith lib CommandType ''actor_'' then
        FActorCommands_HandleCommand lib e CommandType Params
      else if StartsWith lib CommandType ''material_'' then
        FMaterialCommands_HandleCommand lib e CommandType Params
      else if StartsWith lib CommandType ''widget_'' then
        FWidgetCommands_HandleCommand lib e CommandType Params
      else if StartsWith lib CommandType ''asset_'' then
        FAssetCommands_HandleCommand lib e CommandType Params
      else if StartsWith lib CommandType ''input_'' then
        FInputCommands_HandleCommand lib e CommandType Params
      else CreateErrorResponse ''UNKNOWN_COMMAND'' (''Unknown command: '' @ CommandType))"

section \<open>The game thread and \<^verbatim>\<open>ExecuteCommand\<close>\<close>

text \<open>
  \<^verbatim>\<open>AsyncTask(ENamedThreads::GameThread, ...)\<close> appends a task to the game thread's queue;
  the game thread runs its queue in order. A task of the bridge is the command and the
  parameters its lambda captured. \<open>Pending\<close> are the tasks submitted and not yet run,
  \<open>Executed\<close> the tasks the game thread has run (each a call of \<open>RouteCommand\<close> there).
  Nothing in the plugin removes a task from the queue.
\<close>

type_synonym task = "string \<times> json_object"

record game_thread =
  Pending :: "task list"
  Executed :: "task list"

definition AsyncTask :: "game_thread \<Rightarrow> task \<Rightarrow> game_thread" where
  "AsyncTask gt t = gt\<lparr>Pending := Pending gt @ [t]\<rparr>"

definition GameThread_run :: "nat \<Rightarrow> game_thread \<Rightarrow> game_thread" where
  \<comment> \<open>the game thread runs the first \<open>n\<close> queued tasks\<close>
  "GameThread_run n gt =
     gt\<lparr>Pending := drop n (Pending gt), Executed := Executed gt @ take n (Pending gt)\<rparr>"

definition TaskResult :: "engine_lib \<Rightarrow> engine \<Rightarrow> task \<Rightarrow> string" where
  \<comment> \<open>the value the task's lambda passes to \<^verbatim>\<open>Promise.SetValue\<close>\<close>
  "TaskResult lib e t =
     (let Result = RouteCommand lib e (fst t) (snd t)
      in Serialize lib Result)"

text \<open>
  \<open>progress t\<close> is the number of queued tasks the game thread gets through within \<open>t\<close>
  seconds of the submission. \<^verbatim>\<open>Future.WaitFor(FTimespan::FromSeconds(30))\<close> is true when
  the submitted task, the last of the queue, is among them. The function returns the
  response string and the game thread as it is when the wait ends.
\<close>

definition ExecuteCommand ::
  "engine_lib \<Rightarrow> engine \<Rightarrow> (nat \<Rightarrow> nat) \<Rightarrow> game_thread \<Rightarrow> string \<Rightarrow> json_object
     \<Rightarrow> string \<times> game_thread" where
  "ExecuteCommand lib e progress gt CommandType Params =
     (let gt = AsyncTask gt (CommandType, Params);
          bReady = (length (Pending gt) \<le> progress 30);
          gt = GameThread_run (progress 30) gt
      in if \<not> bReady then
           (let TimeoutError = CreateErrorResponse ''TIMEOUT'' ''Command execution timed out''
            in (Serialize lib TimeoutError, gt))
         else (TaskResult lib e (CommandType, Params), gt))"

section \<open>The connection server (GRIDServerRunnable.cpp)\<close>

definition INVALID_JSON_response :: string where
  \<open>INVALID_JSON_response =
     ''{"success":false,"error_code":"INVALID_JSON","error":"Failed to parse request JSON"}''\<close>

definition MISSING_COMMAND_response :: string where
  \<open>MISSING_COMMAND_response =
     ''{"success":false,"error_code":"MISSING_COMMAND","error":"Request missing 'command' field"}''\<close>

definition ProcessRequest ::
  "engine_lib \<Rightarrow> engine \<Rightarrow> (nat \<Rightarrow> nat) \<Rightarrow> game_thread \<Rightarrow> string \<Rightarrow> string \<times> game_thread" where
  "ProcessRequest lib e progress gt RequestData =
     (case Deserialize lib RequestData of
        None \<Rightarrow> (INVALID_JSON_response, gt)
      | Some RequestJson \<Rightarrow>
          (case TryGetStringField lib RequestJson ''command'' of
             None \<Rightarrow> (MISSING_COMMAND_response, gt)
           | Some CommandType \<Rightarrow>
               (let Params = (case GetObjectField RequestJson ''params'' of
                                Some p \<Rightarrow> p
                              | None \<Rightarrow> [])
                in ExecuteCommand lib e progress gt CommandType Params)))"

text \<open>
  A client socket is what its calls return: whether it becomes readable within a number
  of seconds (\<^verbatim>\<open>Wait\<close>), and the bytes a blocking \<^verbatim>\<open>Recv\<close> delivers (\<open>None\<close> when
  \<^verbatim>\<open>Recv\<close> returns false). The handler is the list of calls it makes on the socket, in
  order.

  The buffer of 65536 bytes is not initialized, and \<^verbatim>\<open>Recv\<close> writes the received bytes
  at its start and nothing after them. \<open>Memory\<close> is what stands in memory from the start
  of the buffer on before the call: the bytes of the buffer and those that follow it.
  \<^verbatim>\<open>UTF8_TO_TCHAR\<close> reads a C string there, up to the first zero byte, wherever that is;
  \<^verbatim>\<open>Left(BytesRead)\<close> then keeps that many characters of the converted text. So bytes
  that were not received enter the request when the received bytes convert to fewer
  characters than there are bytes, and when the received bytes fill the buffer the read
  goes on past its end.
\<close>

datatype socket_call =
    SetNonBlocking bool
  | Wait nat
  | Recv nat
  | Send string
  | Close
  | DestroySocket

record client_socket =
  ReadableWithin :: "nat \<Rightarrow> bool"
  RecvData :: "string option"

definition HandleClientConnection ::
  "engine_lib \<Rightarrow> engine \<Rightarrow> (nat \<Rightarrow> nat) \<Rightarrow> game_thread \<Rightarrow> bool \<Rightarrow> string
     \<Rightarrow> client_socket option \<Rightarrow> socket_call list \<times> game_thread" where
  "HandleClientConnection lib e progress gt Bridge Memory ClientSocket =
     (case ClientSocket of
        None \<Rightarrow> ([], gt)
      | Some sock \<Rightarrow>
          if \<not> Bridge then ([], gt)
          else
            (let calls = [SetNonBlocking False, Wait 5, Recv 65536]
             in case RecvData sock of
                  None \<Rightarrow> (calls, gt)
                | Some data \<Rightarrow>
                    (let Received = take 65536 data;
                         BytesRead = length Received;
                         Memory = Received @ drop BytesRead Memory
                     in if BytesRead > 0 then
                          (let CString = takeWhile (\<lambda>c. c \<noteq> CHR 0x00) Memory;
                               RequestData = Utf8ToString lib CString;
                               RequestData = take BytesRead RequestData;
                               (ResponseData, gt) = ProcessRequest lib e progress gt RequestData
                           in (calls @ [Send (StringToUtf8 lib ResponseData)], gt))
                        else (calls, gt))))"

text \<open>
  The accept loop, over what each iteration observes: the stop counter at the top of the
  loop, whether the listener pointer is valid, the outcome of the poll and the accept,
  and, for a connection that is handled, the progress of the game thread and the memory
  in which the handler's buffer is allocated.
\<close>

datatype accept_event =
    WaitFailed
  | NoPendingConnection
  | Accepted "client_socket option"

record iteration =
  StopTaskCounter :: nat
  ListenerIsValid :: bool
  Poll :: accept_event
  GameThreadProgress :: "nat \<Rightarrow> nat"
  BufferMemory :: string

fun Run ::
  "engine_lib \<Rightarrow> engine \<Rightarrow> game_thread \<Rightarrow> iteration list \<Rightarrow> socket_call list \<times> game_thread" where
  "Run lib e gt [] = ([], gt)"
| "Run lib e gt (it # its) =
     (if StopTaskCounter it \<noteq> 0 then ([], gt)
      else if \<not> ListenerIsValid it then ([], gt)
      else
        (case Poll it of
           WaitFailed \<Rightarrow> Run lib e gt its
         | NoPendingConnection \<Rightarrow> Run lib e gt its
         | Accepted None \<Rightarrow> Run lib e gt its
         | Accepted (Some sock) \<Rightarrow>
             (let (calls, gt) =
                    HandleClientConnection lib e (GameThreadProgress it) gt True
                      (BufferMemory it) (Some sock);
                  (rest, gt) = Run lib e gt its
              in (calls @ [Close, DestroySocket] @ rest, gt))))"

section \<open>The bridge's life cycle (GRIDBridge.cpp)\<close>

text \<open>
  The members of \<^verbatim>\<open>FGRIDBridge\<close>, and with them the two parts of the host that
  \<^verbatim>\<open>Initialize\<close> and \<^verbatim>\<open>Shutdown\<close> act on: the files on disk and the number of calls
  of \<^verbatim>\<open>Bind\<close> made so far. A raw pointer is whether it is non-null; the runnable, when
  there is one, is its stop counter. Writing and deleting a file take effect (the source
  does not look at what they return).
\<close>

record socket =
  SockBound :: bool
  SockListening :: bool
  SockClosed :: bool

record bridge =
  bIsRunning :: bool
  ServerThread :: bool
  ServerRunnable :: "nat option"
  ListenerSocket :: "socket option"
  Port :: int
  PortFilePath :: string
  Files :: "string \<rightharpoonup> string"
  BindCalls :: nat

text \<open>What one call of \<^verbatim>\<open>Initialize\<close> meets in the host.\<close>

record init_env =
  SubsystemOk :: bool
  CreateSocketOk :: bool
  BindOk :: bool
  AssignedPort :: int
  ListenOk :: bool
  ThreadOk :: bool
  ProjectDir :: string

fun dec_digits :: "nat \<Rightarrow> string" where
  "dec_digits n =
     (if n < 10 then [''0123456789'' ! n]
      else dec_digits (n div 10) @ [''0123456789'' ! (n mod 10)])"

declare dec_digits.simps [simp del]

definition FromInt :: "int \<Rightarrow> string" where
  \<comment> \<open>\<^verbatim>\<open>FString::FromInt\<close>: the decimal form of a 32-bit integer\<close>
  "FromInt i = (if i < 0 then ''-'' @ dec_digits (nat (- i)) else dec_digits (nat i))"

fun Combine :: "string list \<Rightarrow> string" where
  \<comment> \<open>\<^verbatim>\<open>FPaths::Combine\<close>: the parts joined by one separator\<close>
  "Combine [] = []"
| "Combine [p] = p"
| "Combine (p # q # ps) =
     (if p = [] \<or> last p = CHR ''/'' then p else p @ ''/'') @ Combine (q # ps)"

definition FGRIDBridge :: "(string \<rightharpoonup> string) \<Rightarrow> bridge" where
  \<comment> \<open>the constructor, in a host with the given files\<close>
  "FGRIDBridge files =
     \<lparr>bIsRunning = False, ServerThread = False, ServerRunnable = None,
      ListenerSocket = None, Port = 0, PortFilePath = [], Files = files, BindCalls = 0\<rparr>"

definition IsRunning :: "bridge \<Rightarrow> bool" where
  "IsRunning s = bIsRunning s"

definition GetPort :: "bridge \<Rightarrow> int" where
  "GetPort s = Port s"

definition WritePortFile :: "init_env \<Rightarrow> bridge \<Rightarrow> bridge" where
  "WritePortFile env s =
     (let s = s\<lparr>PortFilePath :=
                  Combine [ProjectDir env, ''Saved'', ''Config'', ''GRID'', ''Port.txt'']\<rparr>
      in s\<lparr>Files := (Files s)(PortFilePath s \<mapsto> FromInt (Port s))\<rparr>)"

definition DeletePortFile :: "bridge \<Rightarrow> bridge" where
  "DeletePortFile s =
     (if PortFilePath s \<noteq> [] then s\<lparr>Files := (Files s)(PortFilePath s := None)\<rparr>
      else s)"

definition Shutdown :: "bridge \<Rightarrow> bridge" where
  "Shutdown s =
     (if \<not> bIsRunning s then s
      else
        (let s = s\<lparr>bIsRunning := False\<rparr>;
             s = (case ServerRunnable s of
                    Some counter \<Rightarrow> s\<lparr>ServerRunnable := Some (counter + 1)\<rparr>
                  | None \<Rightarrow> s);
             s = (case ListenerSocket s of
                    Some sock \<Rightarrow> s\<lparr>ListenerSocket := None\<rparr>
                  | None \<Rightarrow> s);
             s = (if ServerThread s then s\<lparr>ServerThread := False, ServerRunnable := None\<rparr>
                  else s)
         in DeletePortFile s))"

definition Initialize :: "init_env \<Rightarrow> bridge \<Rightarrow> bridge" where
  "Initialize env s =
     (if bIsRunning s then s
      else if \<not> SubsystemOk env then s
      else
        (let s = s\<lparr>ListenerSocket :=
                     (if CreateSocketOk env
                      then Some \<lparr>SockBound = False, SockListening = False, SockClosed = False\<rparr>
                      else None)\<rparr>
         in case ListenerSocket s of
              None \<Rightarrow> s
            | Some sock \<Rightarrow>
                (let s = s\<lparr>BindCalls := BindCalls s + 1\<rparr>
                 in if \<not> BindOk env then s
                    else
                      (let sock = sock\<lparr>SockBound := True\<rparr>;
                           s = s\<lparr>ListenerSocket := Some sock, Port := AssignedPort env\<rparr>
                       in if \<not> ListenOk env then s
                          else
                            (let s = s\<lparr>ListenerSocket := Some (sock\<lparr>SockListening := True\<rparr>)\<rparr>;
                                 s = WritePortFile env s;
                                 s = s\<lparr>ServerRunnable := Some 0, ServerThread := ThreadOk env\<rparr>
                             in if \<not> ServerThread s then Shutdown s
                                else s\<lparr>bIsRunning := True\<rparr>)))))"

section \<open>The routing contract\<close>

text \<open>
  The specification describes routing as two look-ups: a scan of a fixed ordered list of
  (prefix, handler group) pairs in which the first prefix the command starts with wins,
  then, inside the group, a dispatch on the whole command name over the group's
  operations. The definitions of this section follow that description; the theorems
  below compare them with the chains of tests of the source. An operation is its command
  name, whether it is built, and the method the source calls for it.
\<close>

type_synonym operation = "string \<times> bool \<times> (json_object \<Rightarrow> json_object)"

definition FBlueprintCommands_operations :: "engine_lib \<Rightarrow> engine \<Rightarrow> operation list" where
  "FBlueprintCommands_operations lib e =
     [(''blueprint_create'', True, FBlueprintCommands_CreateBlueprint lib e),
      (''blueprint_compile'', True, FBlueprintCommands_CompileBlueprint lib e),
      (''blueprint_get_info'', True, FBlueprintCommands_GetBlueprintInfo lib e),
      (''blueprint_reparent'', False, FBlueprintCommands_ReparentBlueprint),
      (''blueprint_get_property'', False, FBlueprintCommands_GetProperty),
      (''blueprint_set_property'', False, FBlueprintCommands_SetProperty),
      (''blueprint_add_component'', False, FBlueprintCommands_AddComponent),
      (''blueprint_remove_component'', False, FBlueprintCommands_RemoveComponent),
      (''blueprint_get_hierarchy'', False, FBlueprintCommands_GetComponentHierarchy),
      (''blueprint_add_variable'', False, FBlueprintCommands_AddVariable),
      (''blueprint_remove_variable'', False, FBlueprintCommands_RemoveVariable),
      (''blueprint_list_variables'', False, FBlueprintCommands_ListVariables),
      (''blueprint_add_function'', False, FBlueprintCommands_AddFunction),
      (''blueprint_remove_function'', False, FBlueprintCommands_RemoveFunction),
      (''blueprint_list_functions'', False, FBlueprintCommands_ListFunctions),
      (''blueprint_discover_nodes'', False, FBlueprintCommands_DiscoverNodes),
      (''blueprint_create_node'', False, FBlueprintCommands_CreateNode),
      (''blueprint_delete_node'', False, FBlueprintCommands_DeleteNode),
      (''blueprint_connect_nodes'', False, FBlueprintCommands_ConnectNodes),
      (''blueprint_list_nodes'', False, FBlueprintCommands_ListNodes)]"

definition FActorCommands_operations :: "engine_lib \<Rightarrow> engine \<Rightarrow> operation list" where
  "FActorCommands_operations lib e =
     [(''actor_list'', True, FActorCommands_ListActors e),
      (''actor_find'', True, FActorCommands_FindActors lib e),
      (''actor_spawn'', True, FActorCommands_SpawnActor lib e),
      (''actor_delete'', False, FActorCommands_DeleteActor),
      (''actor_get_info'', False, FActorCommands_GetActorInfo),
      (''actor_get_transform'', False, FActorCommands_GetTransform),
      (''actor_set_transform'', False, FActorCommands_SetTransform),
      (''actor_set_location'', False, FActorCommands_SetLocation),
      (''actor_set_rotation'', False, FActorCommands_SetRotation),
      (''actor_set_scale'', False, FActorCommands_SetScale),
      (''actor_focus'', False, FActorCommands_FocusActor),
      (''actor_select'', False, FActorCommands_SelectActor),
      (''actor_rename'', False, FActorCommands_RenameActor)]"

definition FMaterialCommands_operations :: "engine_lib \<Rightarrow> engine \<Rightarrow> operation list" where
  "FMaterialCommands_operations lib e =
     [(''material_create'', True, FMaterialCommands_CreateMaterial lib e),
      (''material_create_instance'', False, FMaterialCommands_CreateMaterialInstance),
      (''material_get_info'', False, FMaterialCommands_GetMaterialInfo),
      (''material_compile'', False, FMaterialCommands_Compile),
      (''material_save'', False, FMaterialCommands_Save)]"

definition FWidgetCommands_operations :: "engine_lib \<Rightarrow> engine \<Rightarrow> operation list" where
  "FWidgetCommands_operations lib e =
     [(''widget_create'', False, FWidgetCommands_CreateWidgetBlueprint),
      (''widget_list_components'', False, FWidgetCommands_ListComponents),
      (''widget_add_component'', False, FWidgetCommands_AddComponent),
      (''widget_remove_component'', False, FWidgetCommands_RemoveComponent),
      (''widget_get_property'', False, FWidgetCommands_GetProperty),
      (''widget_set_property'', False, FWidgetCommands_SetProperty),
      (''widget_list_properties'', False, FWidgetCommands_ListProperties),
      (''widget_discover_types'', False, FWidgetCommands_DiscoverWidgetTypes),
      (''widget_validate'', False, FWidgetCommands_ValidateHierarchy),
      (''widget_get_events'', False, FWidgetCommands_GetAvailableEvents),
      (''widget_bind_events'', False, FWidgetCommands_BindEvents)]"

definition FAssetCommands_operations :: "engine_lib \<Rightarrow> engine \<Rightarrow> operation list" where
  "FAssetCommands_operations lib e =
     [(''asset_search'', True, FAssetCommands_Search lib e),
      (''asset_import_texture'', False, FAssetCommands_ImportTexture),
      (''asset_export_texture'', False, FAssetCommands_ExportTexture),
      (''asset_delete'', False, FAssetCommands_Delete),
      (''asset_duplicate'', False, FAssetCommands_Duplicate),
      (''asset_save'', False, FAssetCommands_Save),
      (''asset_save_all'', False, FAssetCommands_SaveAll),
      (''asset_list_references'', False, FAssetCommands_ListReferences),
      (''asset_open'', False, FAssetCommands_Open)]"

definition FInputCommands_operations :: "engine_lib \<Rightarrow> engine \<Rightarrow> operation list" where
  "FInputCommands_operations lib e =
     [(''input_create_action'', False, FInputCommands_CreateAction),
      (''input_list_actions'', False, FInputCommands_ListActions),
      (''input_create_context'', False, FInputCommands_CreateMappingContext),
      (''input_list_contexts'', False, FInputCommands_ListMappingContexts),
      (''input_add_mapping'', False, FInputCommands_AddKeyMapping),
      (''input_remove_mapping'', False, FInputCommands_RemoveKeyMapping),
      (''input_get_mappings'', False, FInputCommands_GetMappings),
      (''input_get_keys'', False, FInputCommands_GetAvailableKeys),
      (''input_add_modifier'', False, FInputCommands_AddModifier),
      (''input_remove_modifier'', False, FInputCommands_RemoveModifier),
      (''input_add_trigger'', False, FInputCommands_AddTrigger),
      (''input_remove_trigger'', False, FInputCommands_RemoveTrigger)]"

definition dispatch ::
  "engine_lib \<Rightarrow> string \<Rightarrow> operation list \<Rightarrow> string \<Rightarrow> json_object \<Rightarrow> json_object" where
  "dispatch lib gname ops cmd params =
     (case find (\<lambda>(name, built, op). FString_eq lib cmd name) ops of
        Some (name, built, op) \<Rightarrow> op params
      | None \<Rightarrow> CreateError ''UNKNOWN_COMMAND'' (''Unknown '' @ gname @ '' command: '' @ cmd))"

type_synonym handler_group =
  "string \<times> string \<times> (string \<Rightarrow> json_object \<Rightarrow> json_object) \<times> operation list"

definition HandlerGroups :: "engine_lib \<Rightarrow> engine \<Rightarrow> handler_group list" where
  \<comment> \<open>prefix, name of the group, its \<^verbatim>\<open>HandleCommand\<close>, its operations\<close>
  "HandlerGroups lib e =
     [(''blueprint_'', ''blueprint'', FBlueprintCommands_HandleCommand lib e,
         FBlueprintCommands_operations lib e),
      (''actor_'', ''actor'', FActorCommands_HandleCommand lib e,
         FActorCommands_operations lib e),
      (''material_'', ''material'', FMaterialCommands_HandleCommand lib e,
         FMaterialCommands_operations lib e),
      (''widget_'', ''widget'', FWidgetCommands_HandleCommand lib e,
         FWidgetCommands_operations lib e),
      (''asset_'', ''asset'', FAssetCommands_HandleCommand lib e,
         FAssetCommands_operations lib e),
      (''input_'', ''input'', FInputCommands_HandleCommand lib e,
         FInputCommands_operations lib e)]"

definition Route :: "engine_lib \<Rightarrow> engine \<Rightarrow> string \<Rightarrow> json_object \<Rightarrow> json_object" where
  "Route lib e cmd params =
     (case find (\<lambda>(prefix, gname, Handle, ops). StartsWith lib cmd prefix) (HandlerGroups lib e) of
        Some (prefix, gname, Handle, ops) \<Rightarrow> Handle cmd params
      | None \<Rightarrow> CreateErrorResponse ''UNKNOWN_COMMAND'' (''Unknown command: '' @ cmd))"

section \<open>The envelope contract\<close>

text \<open>
  The two shapes of a response: a success carries \<open>success = true\<close> and at most a
  \<open>data\<close> object; a failure carries \<open>success = false\<close>, an \<open>error_code\<close> string and an
  \<open>error\<close> string, and nothing else.
\<close>

definition is_success_envelope :: "json_object \<Rightarrow> bool" where
  "is_success_envelope obj =
     (map_of obj ''success'' = Some (JBool True) \<and>
      set (map fst obj) \<subseteq> {''success'', ''data''} \<and>
      (case map_of obj ''data'' of None \<Rightarrow> True | Some (JObject d) \<Rightarrow> True | Some _ \<Rightarrow> False))"

definition is_failure_envelope :: "json_object \<Rightarrow> bool" where
  "is_failure_envelope obj =
     (map_of obj ''success'' = Some (JBool False) \<and>
      set (map fst obj) = {''success'', ''error_code'', ''error''} \<and>
      (case map_of obj ''error_code'' of Some (JString c) \<Rightarrow> True | _ \<Rightarrow> False) \<and>
      (case map_of obj ''error'' of Some (JString m) \<Rightarrow> True | _ \<Rightarrow> False))"

definition is_envelope :: "json_object \<Rightarrow> bool" where
  "is_envelope obj =
     (distinct (map fst obj) \<and> (is_success_envelope obj \<or> is_failure_envelope obj))"

definition error_code_of :: "json_object \<Rightarrow> string option" where
  "error_code_of obj =
     (case map_of obj ''error_code'' of Some (JString c) \<Rightarrow> Some c | _ \<Rightarrow> None)"

text \<open>
  The text of a JSON value without white space, used to read the two responses that
  \<^verbatim>\<open>ProcessRequest\<close> writes as string literals. Numbers are printed by the given function.
\<close>

definition json_escape :: "char \<Rightarrow> string" where
  "json_escape c = (if c = CHR 0x22 \<or> c = CHR 0x5C then [CHR 0x5C, c] else [c])"

definition json_quote :: "string \<Rightarrow> string" where
  "json_quote s = [CHR 0x22] @ concat (map json_escape s) @ [CHR 0x22]"

fun join_commas :: "string list \<Rightarrow> string" where
  "join_commas [] = []"
| "join_commas [x] = x"
| "join_commas (x # y # ys) = x @ '','' @ join_commas (y # ys)"

fun json_text :: "(real \<Rightarrow> string) \<Rightarrow> json \<Rightarrow> string" where
  "json_text num JNull = ''null''"
| "json_text num (JBool b) = (if b then ''true'' else ''false'')"
| "json_text num (JNumber x) = num x"
| "json_text num (JString s) = json_quote s"
| "json_text num (JArray xs) = ''['' @ join_commas (map (json_text num) xs) @ '']''"
| "json_text num (JObject kvs) =
     ''{'' @ join_commas (map (\<lambda>(k, v). json_quote k @ '':'' @ json_text num v) kvs) @ ''}''"

section \<open>The state invariant of the specification\<close>

text \<open>
  The specification's invariant of the bridge state: the port is set and the discovery
  file exists if and only if the bridge is running. The discovery file is the one
  \<^verbatim>\<open>WritePortFile\<close> writes under the project directory.
\<close>

definition BridgeState_invariant :: "string \<Rightarrow> bridge \<Rightarrow> bool" where
  "BridgeState_invariant dir s =
     ((Port s \<noteq> 0 \<and>
       Files s (Combine [dir, ''Saved'', ''Config'', ''GRID'', ''Port.txt'']) \<noteq> None)
      = bIsRunning s)"

text \<open>
  The states the specification quantifies over: those reached from a newly constructed
  bridge, in a host without a discovery file, by calls of \<^verbatim>\<open>Initialize\<close> and
  \<^verbatim>\<open>Shutdown\<close>. \<open>host\<close> says what a call of \<^verbatim>\<open>Initialize\<close> may meet; the project
  directory is fixed and the port the host assigns is not zero.
\<close>

inductive reachable :: "(init_env \<Rightarrow> bool) \<Rightarrow> string \<Rightarrow> bridge \<Rightarrow> bool"
  for host :: "init_env \<Rightarrow> bool" and dir :: string where
  reachable_new:
    "files (Combine [dir, ''Saved'', ''Config'', ''GRID'', ''Port.txt'']) = None
       \<Longrightarrow> reachable host dir (FGRIDBridge files)"
| reachable_Initialize:
    "reachable host dir s \<Longrightarrow> host env \<Longrightarrow> ProjectDir env = dir \<Longrightarrow> AssignedPort env \<noteq> 0
       \<Longrightarrow> reachable host dir (Initialize env s)"
| reachable_Shutdown:
    "reachable host dir s \<Longrightarrow> reachable host dir (Shutdown s)"

section \<open>Concrete inputs\<close>

text \<open>
  A small instance of the engine's library (exact comparison, an accessor that reads
  strings only, a reader that knows four request texts, the compact writer) and of the
  editor (one actor in the world), on which the model is run.
\<close>

definition sample_Deserialize :: "string \<Rightarrow> json_object option" where
  \<open>sample_Deserialize s =
     (if s = ''{"command":"actor_delete"}'' then Some [(''command'', JString ''actor_delete'')]
      else if s = ''{"params":{}}'' then Some [(''params'', JObject [])]
      else if s = ''{"command":null}'' then Some [(''command'', JNull)]
      else if s = ''{"command":5}'' then Some [(''command'', JNumber 5)]
      else None)\<close>

definition sample_lib :: engine_lib where
  "sample_lib =
     \<lparr>FoldCase = (\<lambda>c. c),
      Deserialize = sample_Deserialize,
      Serialize = (\<lambda>obj. json_text (\<lambda>x. ''0'') (JObject obj)),
      TryGetString = (\<lambda>v. case v of JString s \<Rightarrow> Some s | _ \<Rightarrow> None),
      TryGetNumber = (\<lambda>v. case v of JNumber x \<Rightarrow> Some x | _ \<Rightarrow> None),
      Utf8ToString = (\<lambda>s. s),
      StringToUtf8 = (\<lambda>s. s)\<rparr>"

definition sample_engine :: engine where
  "sample_engine =
     \<lparr>EditorWorld =
        Some [\<lparr>ActorLabel = ''Cube'', ActorClassName = ''StaticMeshActor'',
               ActorLocation = (0, 0, 0)\<rparr>],
      FindClass = (\<lambda>n. None),
      StaticLoadBlueprintClass = (\<lambda>path. None),
      World_SpawnActor = (\<lambda>c loc. None),
      LoadAsset_Blueprint = (\<lambda>path. None),
      StatusAfterCompile = (\<lambda>b. BS_UpToDate),
      ObjectPathToPackageName = (\<lambda>path. path),
      GetLongPackageAssetName = (\<lambda>path. path),
      FactoryCreateBlueprint = (\<lambda>pkg n parent. False),
      FactoryCreateMaterial = (\<lambda>pkg n. False),
      GetAssets = (\<lambda>ty. [])\<rparr>"

text \<open>
  The same library with the two engine functions as the engine has them: \<^verbatim>\<open>FString\<close>'s
  \<^verbatim>\<open>operator==\<close> and \<^verbatim>\<open>StartsWith\<close> ignore the case of letters, and
  \<^verbatim>\<open>FJsonValue::TryGetString\<close> reads a string as itself, a number and a boolean as their
  text (a whole number as its decimal form), and nothing from null, an array or an object.
\<close>

definition ascii_lower :: "char \<Rightarrow> char" where
  "ascii_lower c =
     (case map_of (zip ''ABCDEFGHIJKLMNOPQRSTUVWXYZ'' ''abcdefghijklmnopqrstuvwxyz'') c of
        Some l \<Rightarrow> l
      | None \<Rightarrow> c)"

definition folding_lib :: engine_lib where
  "folding_lib =
     sample_lib
       \<lparr>FoldCase := ascii_lower,
        TryGetString :=
          (\<lambda>v. case v of
                  JString s \<Rightarrow> Some s
                | JNumber x \<Rightarrow> Some (FromInt \<lfloor>x\<rfloor>)
                | JBool b \<Rightarrow> Some (if b then ''true'' else ''false'')
                | _ \<Rightarrow> None)\<rparr>"

definition idle_game_thread :: game_thread where
  "idle_game_thread = \<lparr>Pending = [], Executed = []\<rparr>"

definition env_ok :: init_env where
  "env_ok =
     \<lparr>SubsystemOk = True, CreateSocketOk = True, BindOk = True, AssignedPort = 54321,
      ListenOk = True, ThreadOk = True, ProjectDir = ''/Game/''\<rparr>"

definition env_listen_fails :: init_env where
  "env_listen_fails = env_ok\<lparr>AssignedPort := 50000, ListenOk := False\<rparr>"

definition env_thread_fails :: init_env where
  "env_thread_fails = env_ok\<lparr>ThreadOk := False\<rparr>"

section \<open>Evaluating the envelope constructors\<close>

lemma CreateError_eval:
  "CreateError c m =
     [(''success'', JBool False), (''error_code'', JString c), (''error'', JString m)]"
  by (simp add: CreateError_def SetBoolField_def SetStringField_def SetField_def)

lemma CreateErrorResponse_eval:
  "CreateErrorResponse c m =
     [(''success'', JBool False), (''error_code'', JString c), (''error'', JString m)]"
  by (simp add: CreateErrorResponse_def SetBoolField_def SetStringField_def SetField_def)

lemma CreateSuccess_eval:
  "CreateSuccess d =
     (case d of
        Some x \<Rightarrow> [(''success'', JBool True), (''data'', JObject x)]
      | None \<Rightarrow> [(''success'', JBool True)])"
  by (simp add: CreateSuccess_def SetBoolField_def SetObjectField_def SetField_def
      split: option.splits)

lemma CreateSuccessResponse_eval:
  "CreateSuccessResponse d =
     (case d of
        Some x \<Rightarrow> [(''success'', JBool True), (''data'', JObject x)]
      | None \<Rightarrow> [(''success'', JBool True)])"
  by (simp add: CreateSuccessResponse_def SetBoolField_def SetObjectField_def SetField_def
      split: option.splits)

lemma error_code_of_CreateError: "error_code_of (CreateError c m) = Some c"
  by (simp add: CreateError_eval error_code_of_def)

lemma error_code_of_CreateSuccess: "error_code_of (CreateSuccess d) = None"
  by (simp add: CreateSuccess_eval error_code_of_def split: option.splits)

lemma failure_CreateError: "is_failure_envelope (CreateError c m)"
  by (auto simp add: CreateError_eval is_failure_envelope_def)

lemma failure_CreateErrorResponse: "is_failure_envelope (CreateErrorResponse c m)"
  by (auto simp add: CreateErrorResponse_eval is_failure_envelope_def)

lemma success_CreateSuccess: "is_success_envelope (CreateSuccess d)"
  by (simp add: CreateSuccess_eval is_success_envelope_def split: option.splits)

lemma success_CreateSuccessResponse: "is_success_envelope (CreateSuccessResponse d)"
  by (simp add: CreateSuccessResponse_eval is_success_envelope_def split: option.splits)

lemma envelope_CreateError: "is_envelope (CreateError c m)"
  using failure_CreateError [of c m] by (simp add: is_envelope_def CreateError_eval)

lemma envelope_CreateErrorResponse: "is_envelope (CreateErrorResponse c m)"
  using failure_CreateErrorResponse [of c m]
  by (simp add: is_envelope_def CreateErrorResponse_eval)

lemma envelope_CreateSuccess: "is_envelope (CreateSuccess d)"
  using success_CreateSuccess [of d]
  by (simp add: is_envelope_def CreateSuccess_eval split: option.splits)

lemma envelope_CreateSuccessResponse: "is_envelope (CreateSuccessResponse d)"
  using success_CreateSuccessResponse [of d]
  by (simp add: is_envelope_def CreateSuccessResponse_eval split: option.splits)

lemma shapes_exclusive: "\<not> (is_success_envelope obj \<and> is_failure_envelope obj)"
  by (simp add: is_success_envelope_def is_failure_envelope_def)

lemmas error_code_simps = error_code_of_CreateError error_code_of_CreateSuccess

lemmas envelope_simps = envelope_CreateError envelope_CreateSuccess

section \<open>The operations of the handler groups\<close>

lemmas FActorCommands_stubs =
  FActorCommands_DeleteActor_def FActorCommands_GetActorInfo_def
  FActorCommands_GetTransform_def FActorCommands_SetTransform_def
  FActorCommands_SetLocation_def FActorCommands_SetRotation_def FActorCommands_SetScale_def
  FActorCommands_FocusActor_def FActorCommands_SelectActor_def FActorCommands_RenameActor_def

lemmas FBlueprintCommands_stubs =
  FBlueprintCommands_ReparentBlueprint_def FBlueprintCommands_GetProperty_def
  FBlueprintCommands_SetProperty_def FBlueprintCommands_AddComponent_def
  FBlueprintCommands_RemoveComponent_def FBlueprintCommands_GetComponentHierarchy_def
  FBlueprintCommands_AddVariable_def FBlueprintCommands_RemoveVariable_def
  FBlueprintCommands_ListVariables_def FBlueprintCommands_AddFunction_def
  FBlueprintCommands_RemoveFunction_def FBlueprintCommands_ListFunctions_def
  FBlueprintCommands_DiscoverNodes_def FBlueprintCommands_CreateNode_def
  FBlueprintCommands_DeleteNode_def FBlueprintCommands_ConnectNodes_def
  FBlueprintCommands_ListNodes_def

lemmas FMaterialCommands_stubs =
  FMaterialCommands_CreateMaterialInstance_def FMaterialCommands_GetMaterialInfo_def
  FMaterialCommands_Compile_def FMaterialCommands_Save_def

lemmas FWidgetCommands_stubs =
  FWidgetCommands_CreateWidgetBlueprint_def FWidgetCommands_ListComponents_def
  FWidgetCommands_AddComponent_def FWidgetCommands_RemoveComponent_def
  FWidgetCommands_GetProperty_def FWidgetCommands_SetProperty_def
  FWidgetCommands_ListProperties_def FWidgetCommands_DiscoverWidgetTypes_def
  FWidgetCommands_ValidateHierarchy_def FWidgetCommands_GetAvailableEvents_def
  FWidgetCommands_BindEvents_def

lemmas FAssetCommands_stubs =
  FAssetCommands_ImportTexture_def FAssetCommands_ExportTexture_def FAssetCommands_Delete_def
  FAssetCommands_Duplicate_def FAssetCommands_Save_def FAssetCommands_SaveAll_def
  FAssetCommands_ListReferences_def FAssetCommands_Open_def

lemmas FInputCommands_stubs =
  FInputCommands_CreateAction_def FInputCommands_ListActions_def
  FInputCommands_CreateMappingContext_def FInputCommands_ListMappingContexts_def
  FInputCommands_AddKeyMapping_def FInputCommands_RemoveKeyMapping_def
  FInputCommands_GetMappings_def FInputCommands_GetAvailableKeys_def
  FInputCommands_AddModifier_def FInputCommands_RemoveModifier_def
  FInputCommands_AddTrigger_def FInputCommands_RemoveTrigger_def

text \<open>Every built operation answers through \<open>CreateError\<close> or \<open>CreateSuccess\<close>.\<close>

lemma ListActors_cases:
  "(\<exists>c m. FActorCommands_ListActors e p = CreateError c m \<and> c \<noteq> ''NOT_IMPLEMENTED'') \<or>
   (\<exists>d. FActorCommands_ListActors e p = CreateSuccess d)"
  by (simp add: FActorCommands_ListActors_def Let_def split: option.splits) blast

lemma FindActors_cases:
  "(\<exists>c m. FActorCommands_FindActors lib e p = CreateError c m \<and> c \<noteq> ''NOT_IMPLEMENTED'') \<or>
   (\<exists>d. FActorCommands_FindActors lib e p = CreateSuccess d)"
  by (simp add: FActorCommands_FindActors_def Let_def split: option.splits) blast

lemma SpawnActor_cases:
  "(\<exists>c m. FActorCommands_SpawnActor lib e p = CreateError c m \<and> c \<noteq> ''NOT_IMPLEMENTED'') \<or>
   (\<exists>d. FActorCommands_SpawnActor lib e p = CreateSuccess d)"
  by (simp add: FActorCommands_SpawnActor_def Let_def split: option.splits) blast

lemma CreateBlueprint_cases:
  "(\<exists>c m. FBlueprintCommands_CreateBlueprint lib e p = CreateError c m \<and> c \<noteq> ''NOT_IMPLEMENTED'') \<or>
   (\<exists>d. FBlueprintCommands_CreateBlueprint lib e p = CreateSuccess d)"
  by (simp add: FBlueprintCommands_CreateBlueprint_def Let_def split: option.splits) blast

lemma CompileBlueprint_cases:
  "(\<exists>c m. FBlueprintCommands_CompileBlueprint lib e p = CreateError c m \<and> c \<noteq> ''NOT_IMPLEMENTED'') \<or>
   (\<exists>d. FBlueprintCommands_CompileBlueprint lib e p = CreateSuccess d)"
  by (simp add: FBlueprintCommands_CompileBlueprint_def Let_def split: option.splits) blast

lemma GetBlueprintInfo_cases:
  "(\<exists>c m. FBlueprintCommands_GetBlueprintInfo lib e p = CreateError c m \<and> c \<noteq> ''NOT_IMPLEMENTED'') \<or>
   (\<exists>d. FBlueprintCommands_GetBlueprintInfo lib e p = CreateSuccess d)"
  by (simp add: FBlueprintCommands_GetBlueprintInfo_def Let_def split: option.splits) blast

lemma CreateMaterial_cases:
  "(\<exists>c m. FMaterialCommands_CreateMaterial lib e p = CreateError c m \<and> c \<noteq> ''NOT_IMPLEMENTED'') \<or>
   (\<exists>d. FMaterialCommands_CreateMaterial lib e p = CreateSuccess d)"
  by (simp add: FMaterialCommands_CreateMaterial_def Let_def split: option.splits) blast

lemma Search_cases:
  "(\<exists>c m. FAssetCommands_Search lib e p = CreateError c m \<and> c \<noteq> ''NOT_IMPLEMENTED'') \<or>
   (\<exists>d. FAssetCommands_Search lib e p = CreateSuccess d)"
  by (simp add: FAssetCommands_Search_def Let_def) blast

lemma built_answer:
  assumes "(\<exists>c m. r = CreateError c m \<and> c \<noteq> ''NOT_IMPLEMENTED'') \<or> (\<exists>d. r = CreateSuccess d)"
  shows "is_envelope r" and "error_code_of r \<noteq> Some ''NOT_IMPLEMENTED''"
  using assms by (auto simp add: envelope_simps error_code_simps)

lemmas built_answers =
  built_answer [OF ListActors_cases] built_answer [OF FindActors_cases]
  built_answer [OF SpawnActor_cases] built_answer [OF CreateBlueprint_cases]
  built_answer [OF CompileBlueprint_cases] built_answer [OF GetBlueprintInfo_cases]
  built_answer [OF CreateMaterial_cases] built_answer [OF Search_cases]

lemma FBlueprintCommands_ops:
  "\<forall>(name, built, op) \<in> set (FBlueprintCommands_operations lib e).
     is_envelope (op p) \<and> built = (error_code_of (op p) \<noteq> Some ''NOT_IMPLEMENTED'')"
  by (simp add: FBlueprintCommands_operations_def FBlueprintCommands_stubs built_answers
      envelope_simps error_code_simps)

lemma FActorCommands_ops:
  "\<forall>(name, built, op) \<in> set (FActorCommands_operations lib e).
     is_envelope (op p) \<and> built = (error_code_of (op p) \<noteq> Some ''NOT_IMPLEMENTED'')"
  by (simp add: FActorCommands_operations_def FActorCommands_stubs built_answers
      envelope_simps error_code_simps)

lemma FMaterialCommands_ops:
  "\<forall>(name, built, op) \<in> set (FMaterialCommands_operations lib e).
     is_envelope (op p) \<and> built = (error_code_of (op p) \<noteq> Some ''NOT_IMPLEMENTED'')"
  by (simp add: FMaterialCommands_operations_def FMaterialCommands_stubs built_answers
      envelope_simps error_code_simps)

lemma FWidgetCommands_ops:
  "\<forall>(name, built, op) \<in> set (FWidgetCommands_operations lib e).
     is_envelope (op p) \<and> built = (error_code_of (op p) \<noteq> Some ''NOT_IMPLEMENTED'')"
  by (simp add: FWidgetCommands_operations_def FWidgetCommands_stubs
      envelope_simps error_code_simps)

lemma FAssetCommands_ops:
  "\<forall>(name, built, op) \<in> set (FAssetCommands_operations lib e).
     is_envelope (op p) \<and> built = (error_code_of (op p) \<noteq> Some ''NOT_IMPLEMENTED'')"
  by (simp add: FAssetCommands_operations_def FAssetCommands_stubs built_answers
      envelope_simps error_code_simps)

lemma FInputCommands_ops:
  "\<forall>(name, built, op) \<in> set (FInputCommands_operations lib e).
     is_envelope (op p) \<and> built = (error_code_of (op p) \<noteq> Some ''NOT_IMPLEMENTED'')"
  by (simp add: FInputCommands_operations_def FInputCommands_stubs
      envelope_simps error_code_simps)

text \<open>Each chain of comparisons is the look-up in the group's list of operations.\<close>

lemma FBlueprintCommands_dispatch:
  "FBlueprintCommands_HandleCommand lib e cmd p =
     dispatch lib ''blueprint'' (FBlueprintCommands_operations lib e) cmd p"
  by (simp add: FBlueprintCommands_HandleCommand_def dispatch_def
      FBlueprintCommands_operations_def)

lemma FActorCommands_dispatch:
  "FActorCommands_HandleCommand lib e cmd p =
     dispatch lib ''actor'' (FActorCommands_operations lib e) cmd p"
  by (simp add: FActorCommands_HandleCommand_def dispatch_def FActorCommands_operations_def)

lemma FMaterialCommands_dispatch:
  "FMaterialCommands_HandleCommand lib e cmd p =
     dispatch lib ''material'' (FMaterialCommands_operations lib e) cmd p"
  by (simp add: FMaterialCommands_HandleCommand_def dispatch_def
      FMaterialCommands_operations_def)

lemma FWidgetCommands_dispatch:
  "FWidgetCommands_HandleCommand lib e cmd p =
     dispatch lib ''widget'' (FWidgetCommands_operations lib e) cmd p"
  by (simp add: FWidgetCommands_HandleCommand_def dispatch_def FWidgetCommands_operations_def)

lemma FAssetCommands_dispatch:
  "FAssetCommands_HandleCommand lib e cmd p =
     dispatch lib ''asset'' (FAssetCommands_operations lib e) cmd p"
  by (simp add: FAssetCommands_HandleCommand_def dispatch_def FAssetCommands_operations_def)

lemma FInputCommands_dispatch:
  "FInputCommands_HandleCommand lib e cmd p =
     dispatch lib ''input'' (FInputCommands_operations lib e) cmd p"
  by (simp add: FInputCommands_HandleCommand_def dispatch_def FInputCommands_operations_def)

lemma HandlerGroups_sound:
  "\<forall>(prefix, gname, Handle, ops) \<in> set (HandlerGroups lib e).
     Handle cmd p = dispatch lib gname ops cmd p \<and>
     (\<forall>(name, built, op) \<in> set ops.
        is_envelope (op p) \<and> built = (error_code_of (op p) \<noteq> Some ''NOT_IMPLEMENTED''))"
  using FBlueprintCommands_ops [of lib e p] FActorCommands_ops [of lib e p]
    FMaterialCommands_ops [of lib e p] FWidgetCommands_ops [of lib e p]
    FAssetCommands_ops [of lib e p] FInputCommands_ops [of lib e p]
  by (simp add: HandlerGroups_def FBlueprintCommands_dispatch FActorCommands_dispatch
      FMaterialCommands_dispatch FWidgetCommands_dispatch FAssetCommands_dispatch
      FInputCommands_dispatch)

lemma dispatch_unknown:
  assumes "find (\<lambda>(name, built, op). FString_eq lib cmd name) ops = None"
  shows "dispatch lib gname ops cmd p =
           CreateError ''UNKNOWN_COMMAND'' (''Unknown '' @ gname @ '' command: '' @ cmd)"
  using assms by (simp add: dispatch_def)

lemma find_Some_mem: "find P xs = Some x \<Longrightarrow> x \<in> set xs"
  by (induction xs) (auto split: if_splits)

lemma dispatch_known:
  assumes "find (\<lambda>(name, built, op). FString_eq lib cmd name) ops = Some (name, built, op)"
  shows "dispatch lib gname ops cmd p = op p \<and> (name, built, op) \<in> set ops"
  using assms find_Some_mem [OF assms] by (simp add: dispatch_def)

lemma dispatch_envelope:
  assumes "\<forall>(name, built, op) \<in> set ops. is_envelope (op p)"
  shows "is_envelope (dispatch lib gname ops cmd p)"
proof (cases "find (\<lambda>(name, built, op). FString_eq lib cmd name) ops")
  case None
  then show ?thesis
    by (simp add: dispatch_unknown envelope_CreateError)
next
  case (Some t)
  obtain name built op where t: "t = (name, built, op)"
    by (cases t) auto
  from Some t have f: "find (\<lambda>(name, built, op). FString_eq lib cmd name) ops = Some (name, built, op)"
    by simp
  from dispatch_known [OF f]
  have "dispatch lib gname ops cmd p = op p" and "(name, built, op) \<in> set ops"
    by simp_all
  with assms show ?thesis
    by auto
qed

lemma RouteCommand_is_Route:
  assumes "\<not> FString_eq lib cmd ''check_connection''"
  shows "RouteCommand lib e cmd p = Route lib e cmd p"
  using assms by (simp add: RouteCommand_def Route_def HandlerGroups_def)

lemma Route_unknown:
  assumes "\<forall>(prefix, gname, Handle, ops) \<in> set (HandlerGroups lib e). \<not> StartsWith lib cmd prefix"
  shows "Route lib e cmd p = CreateErrorResponse ''UNKNOWN_COMMAND'' (''Unknown command: '' @ cmd)"
  using assms by (simp add: Route_def HandlerGroups_def)

lemma check_connection_answer:
  assumes "FString_eq lib cmd ''check_connection''"
  shows "RouteCommand lib e cmd p =
           CreateSuccessResponse
             (Some [(''connected'', JBool True), (''engine_version'', JString ''5.5''),
                    (''plugin_version'', JString ''1.0.0'')])"
  using assms
  by (simp add: RouteCommand_def SetBoolField_def SetStringField_def SetField_def)

lemma Route_envelope: "is_envelope (Route lib e cmd p)"
proof (cases "find (\<lambda>(prefix, gname, Handle, ops). StartsWith lib cmd prefix) (HandlerGroups lib e)")
  case None
  then show ?thesis
    by (simp add: Route_def envelope_CreateErrorResponse)
next
  case (Some g)
  obtain prefix gname Handle ops where g: "g = (prefix, gname, Handle, ops)"
    by (cases g) auto
  from find_Some_mem [OF Some] g
  have mem: "(prefix, gname, Handle, ops) \<in> set (HandlerGroups lib e)"
    by simp
  from HandlerGroups_sound [of lib e cmd p]
  have "case (prefix, gname, Handle, ops) of
          (prefix, gname, Handle, ops) \<Rightarrow>
            Handle cmd p = dispatch lib gname ops cmd p \<and>
            (\<forall>(name, built, op) \<in> set ops.
               is_envelope (op p) \<and> built = (error_code_of (op p) \<noteq> Some ''NOT_IMPLEMENTED''))"
    using mem by (rule bspec)
  then have h: "Handle cmd p = dispatch lib gname ops cmd p"
    and o: "\<forall>(name, built, op) \<in> set ops. is_envelope (op p)"
    by auto
  from Some g have "Route lib e cmd p = Handle cmd p"
    by (simp add: Route_def)
  with h dispatch_envelope [OF o] show ?thesis
    by simp
qed

lemma RouteCommand_envelope: "is_envelope (RouteCommand lib e cmd p)"
proof (cases "FString_eq lib cmd ''check_connection''")
  case True
  then show ?thesis
    by (simp add: check_connection_answer envelope_CreateSuccessResponse)
next
  case False
  then show ?thesis
    by (simp add: RouteCommand_is_Route Route_envelope)
qed

section \<open>Routing\<close>

lemma FString_eq_exact:
  assumes "FoldCase lib = (\<lambda>c. c)"
  shows "FString_eq lib a b = (a = b)" and "StartsWith lib s p = (take (length p) s = p)"
  using assms by (simp_all add: FString_eq_def StartsWith_def)

text \<open>
  C2, as the code has it. The routing compares with \<^verbatim>\<open>FString\<close>'s \<^verbatim>\<open>operator==\<close> and
  \<^verbatim>\<open>StartsWith\<close>, which are the engine's and ignore the case of letters: the dispatch is
  on the whole command name, and exact only up to that folding. For every command that
  \<^verbatim>\<open>operator==\<close> does not equate with \<open>check_connection\<close>, \<^verbatim>\<open>RouteCommand\<close> is the scan of
  the ordered prefix list blueprint_, actor_, material_, widget_, asset_, input_, in which
  the first prefix the command starts with (for \<^verbatim>\<open>StartsWith\<close>) wins. If no prefix
  matches, the response is the failure \<open>UNKNOWN_COMMAND\<close>. If a prefix matches, the command
  goes to that group's \<^verbatim>\<open>HandleCommand\<close>, which is the look-up of the whole command name
  (for \<^verbatim>\<open>operator==\<close>) in the group's operations: a name that is not found gives the
  group's own \<open>UNKNOWN_COMMAND\<close> failure, a name that is found gives what its operation
  answers, and an operation answers \<open>NOT_IMPLEMENTED\<close> exactly when it is not built. The
  theorem holds for every folding of characters, the identity included, under which the
  comparisons are exact.
\<close>

theorem C2_route_contract:
  assumes "\<not> FString_eq lib cmd ''check_connection''"
  shows
    "RouteCommand lib e cmd p = Route lib e cmd p \<and>
     map fst (HandlerGroups lib e) =
       [''blueprint_'', ''actor_'', ''material_'', ''widget_'', ''asset_'', ''input_''] \<and>
     ((\<forall>(prefix, gname, Handle, ops) \<in> set (HandlerGroups lib e). \<not> StartsWith lib cmd prefix) \<longrightarrow>
        RouteCommand lib e cmd p =
          CreateErrorResponse ''UNKNOWN_COMMAND'' (''Unknown command: '' @ cmd) \<and>
        is_failure_envelope (RouteCommand lib e cmd p) \<and>
        error_code_of (RouteCommand lib e cmd p) = Some ''UNKNOWN_COMMAND'') \<and>
     (\<forall>(prefix, gname, Handle, ops) \<in> set (HandlerGroups lib e).
        Handle cmd p = dispatch lib gname ops cmd p \<and>
        (find (\<lambda>(name, built, op). FString_eq lib cmd name) ops = None \<longrightarrow>
           Handle cmd p =
             CreateError ''UNKNOWN_COMMAND'' (''Unknown '' @ gname @ '' command: '' @ cmd) \<and>
           is_failure_envelope (Handle cmd p) \<and>
           error_code_of (Handle cmd p) = Some ''UNKNOWN_COMMAND'') \<and>
        (\<forall>name built op.
           find (\<lambda>(name, built, op). FString_eq lib cmd name) ops = Some (name, built, op) \<longrightarrow>
           Handle cmd p = op p \<and>
           built = (error_code_of (Handle cmd p) \<noteq> Some ''NOT_IMPLEMENTED'')))"
proof (intro conjI)
  show "RouteCommand lib e cmd p = Route lib e cmd p"
    using assms by (rule RouteCommand_is_Route)
  show "map fst (HandlerGroups lib e) =
          [''blueprint_'', ''actor_'', ''material_'', ''widget_'', ''asset_'', ''input_'']"
    by (simp add: HandlerGroups_def)
  show "(\<forall>(prefix, gname, Handle, ops) \<in> set (HandlerGroups lib e). \<not> StartsWith lib cmd prefix) \<longrightarrow>
        RouteCommand lib e cmd p =
          CreateErrorResponse ''UNKNOWN_COMMAND'' (''Unknown command: '' @ cmd) \<and>
        is_failure_envelope (RouteCommand lib e cmd p) \<and>
        error_code_of (RouteCommand lib e cmd p) = Some ''UNKNOWN_COMMAND''"
  proof
    assume none: "\<forall>(prefix, gname, Handle, ops) \<in> set (HandlerGroups lib e). \<not> StartsWith lib cmd prefix"
    have r: "RouteCommand lib e cmd p =
               CreateErrorResponse ''UNKNOWN_COMMAND'' (''Unknown command: '' @ cmd)"
      using RouteCommand_is_Route [OF assms] Route_unknown [OF none] by simp
    moreover have "is_failure_envelope (RouteCommand lib e cmd p)"
      unfolding r by (rule failure_CreateErrorResponse)
    moreover have "error_code_of (RouteCommand lib e cmd p) = Some ''UNKNOWN_COMMAND''"
      unfolding r by (simp add: CreateErrorResponse_eval error_code_of_def)
    ultimately show "RouteCommand lib e cmd p =
          CreateErrorResponse ''UNKNOWN_COMMAND'' (''Unknown command: '' @ cmd) \<and>
        is_failure_envelope (RouteCommand lib e cmd p) \<and>
        error_code_of (RouteCommand lib e cmd p) = Some ''UNKNOWN_COMMAND''"
      by simp
  qed
  show "\<forall>(prefix, gname, Handle, ops) \<in> set (HandlerGroups lib e).
        Handle cmd p = dispatch lib gname ops cmd p \<and>
        (find (\<lambda>(name, built, op). FString_eq lib cmd name) ops = None \<longrightarrow>
           Handle cmd p =
             CreateError ''UNKNOWN_COMMAND'' (''Unknown '' @ gname @ '' command: '' @ cmd) \<and>
           is_failure_envelope (Handle cmd p) \<and>
           error_code_of (Handle cmd p) = Some ''UNKNOWN_COMMAND'') \<and>
        (\<forall>name built op.
           find (\<lambda>(name, built, op). FString_eq lib cmd name) ops = Some (name, built, op) \<longrightarrow>
           Handle cmd p = op p \<and>
           built = (error_code_of (Handle cmd p) \<noteq> Some ''NOT_IMPLEMENTED''))"
  proof (rule ballI, clarify)
    fix prefix gname Handle ops
    assume mem: "(prefix, gname, Handle, ops) \<in> set (HandlerGroups lib e)"
    from HandlerGroups_sound [of lib e cmd p]
    have "case (prefix, gname, Handle, ops) of
            (prefix, gname, Handle, ops) \<Rightarrow>
              Handle cmd p = dispatch lib gname ops cmd p \<and>
              (\<forall>(name, built, op) \<in> set ops.
                 is_envelope (op p) \<and>
                 built = (error_code_of (op p) \<noteq> Some ''NOT_IMPLEMENTED''))"
      using mem by (rule bspec)
    then have h: "Handle cmd p = dispatch lib gname ops cmd p"
      and o: "\<forall>(name, built, op) \<in> set ops.
                built = (error_code_of (op p) \<noteq> Some ''NOT_IMPLEMENTED'')"
      by auto
    have unknown: "find (\<lambda>(name, built, op). FString_eq lib cmd name) ops = None \<longrightarrow>
           Handle cmd p =
             CreateError ''UNKNOWN_COMMAND'' (''Unknown '' @ gname @ '' command: '' @ cmd) \<and>
           is_failure_envelope (Handle cmd p) \<and>
           error_code_of (Handle cmd p) = Some ''UNKNOWN_COMMAND''"
      by (simp add: h dispatch_unknown failure_CreateError error_code_of_CreateError)
    have known: "\<forall>name built op.
           find (\<lambda>(name, built, op). FString_eq lib cmd name) ops = Some (name, built, op) \<longrightarrow>
           Handle cmd p = op p \<and>
           built = (error_code_of (Handle cmd p) \<noteq> Some ''NOT_IMPLEMENTED'')"
    proof (intro allI impI)
      fix name built op
      assume f: "find (\<lambda>(name, built, op). FString_eq lib cmd name) ops = Some (name, built, op)"
      from dispatch_known [OF f, of gname p] h
      have eq: "Handle cmd p = op p" and m: "(name, built, op) \<in> set ops"
        by simp_all
      from o m have "built = (error_code_of (op p) \<noteq> Some ''NOT_IMPLEMENTED'')"
        by auto
      with eq show "Handle cmd p = op p \<and>
           built = (error_code_of (Handle cmd p) \<noteq> Some ''NOT_IMPLEMENTED'')"
        by simp
    qed
    from h unknown known
    show "Handle cmd p = dispatch lib gname ops cmd p \<and>
        (find (\<lambda>(name, built, op). FString_eq lib cmd name) ops = None \<longrightarrow>
           Handle cmd p =
             CreateError ''UNKNOWN_COMMAND'' (''Unknown '' @ gname @ '' command: '' @ cmd) \<and>
           is_failure_envelope (Handle cmd p) \<and>
           error_code_of (Handle cmd p) = Some ''UNKNOWN_COMMAND'') \<and>
        (\<forall>name built op.
           find (\<lambda>(name, built, op). FString_eq lib cmd name) ops = Some (name, built, op) \<longrightarrow>
           Handle cmd p = op p \<and>
           built = (error_code_of (Handle cmd p) \<noteq> Some ''NOT_IMPLEMENTED''))"
      by blast
  qed
qed

theorem C2_route_contract_witness:
  "\<not> FString_eq sample_lib ''actor_delete'' ''check_connection'' \<and>
   RouteCommand sample_lib sample_engine ''actor_delete'' [] =
     Route sample_lib sample_engine ''actor_delete'' [] \<and>
   FActorCommands_HandleCommand sample_lib sample_engine ''actor_delete'' [] =
     FActorCommands_DeleteActor [] \<and>
   error_code_of (FActorCommands_HandleCommand sample_lib sample_engine ''actor_delete'' []) =
     Some ''NOT_IMPLEMENTED''"
proof -
  have h: "\<not> FString_eq sample_lib ''actor_delete'' ''check_connection''"
    by (simp add: FString_eq_def sample_lib_def)
  have mem: "(''actor_'', ''actor'', FActorCommands_HandleCommand sample_lib sample_engine,
              FActorCommands_operations sample_lib sample_engine)
             \<in> set (HandlerGroups sample_lib sample_engine)"
    by (simp add: HandlerGroups_def)
  have f: "find (\<lambda>(name, built, op). FString_eq sample_lib ''actor_delete'' name)
             (FActorCommands_operations sample_lib sample_engine) =
           Some (''actor_delete'', False, FActorCommands_DeleteActor)"
    by (simp add: FActorCommands_operations_def FString_eq_def sample_lib_def)
  note t = C2_route_contract [OF h, of sample_engine "[]"]
  from t have r: "RouteCommand sample_lib sample_engine ''actor_delete'' [] =
     Route sample_lib sample_engine ''actor_delete'' []"
    by blast
  from t have "\<forall>(prefix, gname, Handle, ops) \<in> set (HandlerGroups sample_lib sample_engine).
        (\<forall>name built op.
           find (\<lambda>(name, built, op). FString_eq sample_lib ''actor_delete'' name) ops = Some (name, built, op) \<longrightarrow>
           Handle ''actor_delete'' [] = op [] \<and>
           built = (error_code_of (Handle ''actor_delete'' []) \<noteq> Some ''NOT_IMPLEMENTED''))"
    by blast
  from bspec [OF this mem]
  have "\<forall>name built op.
           find (\<lambda>(name, built, op). FString_eq sample_lib ''actor_delete'' name)
             (FActorCommands_operations sample_lib sample_engine) = Some (name, built, op) \<longrightarrow>
           FActorCommands_HandleCommand sample_lib sample_engine ''actor_delete'' [] = op [] \<and>
           built = (error_code_of (FActorCommands_HandleCommand sample_lib sample_engine ''actor_delete'' [])
                      \<noteq> Some ''NOT_IMPLEMENTED'')"
    by (simp only: prod.case)
  from this [rule_format, OF f]
  have "FActorCommands_HandleCommand sample_lib sample_engine ''actor_delete'' [] =
     FActorCommands_DeleteActor [] \<and>
   error_code_of (FActorCommands_HandleCommand sample_lib sample_engine ''actor_delete'' []) =
     Some ''NOT_IMPLEMENTED''"
    by auto
  with h r show ?thesis
    by blast
qed

text \<open>
  The claim as stated fails where the comparison is not exact. \<open>CHECK_CONNECTION\<close> is a
  command other than \<open>check_connection\<close> that starts with none of the six prefixes, and it
  is answered with the payload of \<open>check_connection\<close>, not with \<open>UNKNOWN_COMMAND\<close>.
  \<open>ACTOR_DELETE\<close> does not start with \<open>actor_\<close> and is not the name of an operation, and it
  is answered by \<^verbatim>\<open>DeleteActor\<close>.
\<close>

theorem C2_case_is_ignored:
  "''CHECK_CONNECTION'' \<noteq> ''check_connection'' \<and>
   RouteCommand folding_lib sample_engine ''CHECK_CONNECTION'' [] =
     [(''success'', JBool True),
      (''data'', JObject [(''connected'', JBool True), (''engine_version'', JString ''5.5''),
                          (''plugin_version'', JString ''1.0.0'')])] \<and>
   take 6 ''ACTOR_DELETE'' \<noteq> ''actor_'' \<and>
   ''ACTOR_DELETE'' \<notin> fst ` set (FActorCommands_operations folding_lib sample_engine) \<and>
   RouteCommand folding_lib sample_engine ''ACTOR_DELETE'' [] =
     [(''success'', JBool False), (''error_code'', JString ''NOT_IMPLEMENTED''),
      (''error'', JString ''DeleteActor not yet implemented'')]"
proof -
  have a: "RouteCommand folding_lib sample_engine ''CHECK_CONNECTION'' [] =
     [(''success'', JBool True),
      (''data'', JObject [(''connected'', JBool True), (''engine_version'', JString ''5.5''),
                          (''plugin_version'', JString ''1.0.0'')])]"
    by (simp add: RouteCommand_def FString_eq_def folding_lib_def sample_lib_def ascii_lower_def
        CreateSuccessResponse_eval SetBoolField_def SetStringField_def SetField_def)
  have b: "RouteCommand folding_lib sample_engine ''ACTOR_DELETE'' [] =
     [(''success'', JBool False), (''error_code'', JString ''NOT_IMPLEMENTED''),
      (''error'', JString ''DeleteActor not yet implemented'')]"
    by (simp add: RouteCommand_def FString_eq_def StartsWith_def folding_lib_def sample_lib_def
        ascii_lower_def FActorCommands_HandleCommand_def FActorCommands_DeleteActor_def
        CreateError_eval)
  have c: "''ACTOR_DELETE'' \<notin> fst ` set (FActorCommands_operations folding_lib sample_engine)"
    by (simp add: FActorCommands_operations_def)
  from a b c show ?thesis
    by simp
qed

section \<open>The envelope\<close>

lemma INVALID_JSON_text:
  "INVALID_JSON_response =
     json_text num (JObject (CreateErrorResponse ''INVALID_JSON'' ''Failed to parse request JSON''))"
  by (simp add: INVALID_JSON_response_def CreateErrorResponse_eval json_quote_def json_escape_def)

lemma MISSING_COMMAND_text:
  "MISSING_COMMAND_response =
     json_text num
       (JObject (CreateErrorResponse ''MISSING_COMMAND'' ''Request missing 'command' field''))"
  by (simp add: MISSING_COMMAND_response_def CreateErrorResponse_eval json_quote_def
      json_escape_def)

lemma ExecuteCommand_text:
  "fst (ExecuteCommand lib e progress gt cmd p) =
     Serialize lib
       (if length (Pending gt) < progress 30 then RouteCommand lib e cmd p
        else CreateErrorResponse ''TIMEOUT'' ''Command execution timed out'')"
  by (simp add: ExecuteCommand_def AsyncTask_def TaskResult_def Let_def)

text \<open>
  C9. Every response has one of the two shapes of the envelope, and never both: the
  object \<^verbatim>\<open>RouteCommand\<close> returns, what each handler group and each of its operations
  returns, the timeout error, the object whose serialization \<^verbatim>\<open>ExecuteCommand\<close> returns,
  and the response of \<^verbatim>\<open>ProcessRequest\<close>, which is that serialization or the text of a
  failure written as a literal. A success has the field \<open>success = true\<close> and at most a
  \<open>data\<close> object; a failure has \<open>success = false\<close>, the strings \<open>error_code\<close> and \<open>error\<close>,
  and no other field.
\<close>

theorem C9_envelope_shapes:
  "is_envelope (RouteCommand lib e cmd p) \<and>
   (\<forall>(prefix, gname, Handle, ops) \<in> set (HandlerGroups lib e).
      is_envelope (Handle cmd p) \<and> (\<forall>(name, built, op) \<in> set ops. is_envelope (op p))) \<and>
   is_failure_envelope (CreateErrorResponse ''TIMEOUT'' ''Command execution timed out'') \<and>
   (\<exists>obj. is_envelope obj \<and> fst (ExecuteCommand lib e progress gt cmd p) = Serialize lib obj) \<and>
   (\<exists>obj. is_envelope obj \<and>
      (fst (ProcessRequest lib e progress gt req) = Serialize lib obj \<or>
       fst (ProcessRequest lib e progress gt req) = json_text num (JObject obj))) \<and>
   (\<exists>obj. is_failure_envelope obj \<and> INVALID_JSON_response = json_text num (JObject obj)) \<and>
   (\<exists>obj. is_failure_envelope obj \<and> MISSING_COMMAND_response = json_text num (JObject obj)) \<and>
   (\<forall>c m. is_failure_envelope (CreateErrorResponse c m) \<and> is_failure_envelope (CreateError c m)) \<and>
   (\<forall>d. is_success_envelope (CreateSuccessResponse d) \<and> is_success_envelope (CreateSuccess d)) \<and>
   (\<forall>obj. \<not> (is_success_envelope obj \<and> is_failure_envelope obj))"
proof (intro conjI)
  show "is_envelope (RouteCommand lib e cmd p)"
    by (rule RouteCommand_envelope)
  show "\<forall>(prefix, gname, Handle, ops) \<in> set (HandlerGroups lib e).
      is_envelope (Handle cmd p) \<and> (\<forall>(name, built, op) \<in> set ops. is_envelope (op p))"
  proof (rule ballI, clarify)
    fix prefix gname Handle ops
    assume mem: "(prefix, gname, Handle, ops) \<in> set (HandlerGroups lib e)"
    from HandlerGroups_sound [of lib e cmd p]
    have "case (prefix, gname, Handle, ops) of
            (prefix, gname, Handle, ops) \<Rightarrow>
              Handle cmd p = dispatch lib gname ops cmd p \<and>
              (\<forall>(name, built, op) \<in> set ops.
                 is_envelope (op p) \<and>
                 built = (error_code_of (op p) \<noteq> Some ''NOT_IMPLEMENTED''))"
      using mem by (rule bspec)
    then have h: "Handle cmd p = dispatch lib gname ops cmd p"
      and o: "\<forall>(name, built, op) \<in> set ops. is_envelope (op p)"
      by auto
    from h dispatch_envelope [OF o, of lib gname cmd] o
    show "is_envelope (Handle cmd p) \<and> (\<forall>(name, built, op) \<in> set ops. is_envelope (op p))"
      by simp
  qed
  show "is_failure_envelope (CreateErrorResponse ''TIMEOUT'' ''Command execution timed out'')"
    by (rule failure_CreateErrorResponse)
  have x: "is_envelope (if length (Pending gt) < progress 30 then RouteCommand lib e cmd p
        else CreateErrorResponse ''TIMEOUT'' ''Command execution timed out'')"
    for gt :: game_thread and cmd p
    by (simp add: RouteCommand_envelope envelope_CreateErrorResponse)
  show "\<exists>obj. is_envelope obj \<and> fst (ExecuteCommand lib e progress gt cmd p) = Serialize lib obj"
    using x ExecuteCommand_text by blast
  show "\<exists>obj. is_envelope obj \<and>
      (fst (ProcessRequest lib e progress gt req) = Serialize lib obj \<or>
       fst (ProcessRequest lib e progress gt req) = json_text num (JObject obj))"
  proof (cases "Deserialize lib req")
    case None
    then have "fst (ProcessRequest lib e progress gt req) = INVALID_JSON_response"
      by (simp add: ProcessRequest_def)
    with INVALID_JSON_text [of num] envelope_CreateErrorResponse show ?thesis
      by metis
  next
    case (Some RequestJson)
    show ?thesis
    proof (cases "TryGetStringField lib RequestJson ''command''")
      case None
      with Some have "fst (ProcessRequest lib e progress gt req) = MISSING_COMMAND_response"
        by (simp add: ProcessRequest_def)
      with MISSING_COMMAND_text [of num] envelope_CreateErrorResponse show ?thesis
        by metis
    next
      case (Some c)
      with \<open>Deserialize lib req = Some RequestJson\<close>
      have "fst (ProcessRequest lib e progress gt req) =
              fst (ExecuteCommand lib e progress gt c
                (case GetObjectField RequestJson ''params'' of Some q \<Rightarrow> q | None \<Rightarrow> []))"
        by (simp add: ProcessRequest_def)
      with x ExecuteCommand_text show ?thesis
        by metis
    qed
  qed
  show "\<exists>obj. is_failure_envelope obj \<and> INVALID_JSON_response = json_text num (JObject obj)"
    using INVALID_JSON_text failure_CreateErrorResponse by blast
  show "\<exists>obj. is_failure_envelope obj \<and> MISSING_COMMAND_response = json_text num (JObject obj)"
    using MISSING_COMMAND_text failure_CreateErrorResponse by blast
  show "\<forall>c m. is_failure_envelope (CreateErrorResponse c m) \<and> is_failure_envelope (CreateError c m)"
    by (simp add: failure_CreateErrorResponse failure_CreateError)
  show "\<forall>d. is_success_envelope (CreateSuccessResponse d) \<and> is_success_envelope (CreateSuccess d)"
    by (simp add: success_CreateSuccessResponse success_CreateSuccess)
  show "\<forall>obj. \<not> (is_success_envelope obj \<and> is_failure_envelope obj)"
    by (simp add: shapes_exclusive)
qed

theorem C9_envelope_shapes_witness:
  "is_envelope (RouteCommand sample_lib sample_engine ''actor_list'' []) \<and>
   RouteCommand sample_lib sample_engine ''actor_list'' [] =
     [(''success'', JBool True),
      (''data'', JObject
         [(''actors'', JArray
             [JObject [(''name'', JString ''Cube''), (''class'', JString ''StaticMeshActor''),
                       (''x'', JNumber 0), (''y'', JNumber 0), (''z'', JNumber 0)]]),
          (''count'', JNumber 1)])] \<and>
   is_success_envelope (RouteCommand sample_lib sample_engine ''actor_list'' []) \<and>
   \<not> is_failure_envelope (RouteCommand sample_lib sample_engine ''actor_list'' [])"
proof -
  note t = C9_envelope_shapes [of sample_lib sample_engine "''actor_list''" "[]"]
  have r: "RouteCommand sample_lib sample_engine ''actor_list'' [] =
     [(''success'', JBool True),
      (''data'', JObject
         [(''actors'', JArray
             [JObject [(''name'', JString ''Cube''), (''class'', JString ''StaticMeshActor''),
                       (''x'', JNumber 0), (''y'', JNumber 0), (''z'', JNumber 0)]]),
          (''count'', JNumber 1)])]"
    by (simp add: RouteCommand_def FString_eq_def StartsWith_def sample_lib_def
        sample_engine_def FActorCommands_HandleCommand_def FActorCommands_ListActors_def
        CreateSuccess_eval SetArrayField_def SetNumberField_def SetStringField_def SetField_def)
  from t have e: "is_envelope (RouteCommand sample_lib sample_engine ''actor_list'' [])"
    by blast
  have s: "is_success_envelope (RouteCommand sample_lib sample_engine ''actor_list'' [])"
    unfolding r by (simp add: is_success_envelope_def)
  from t s have "\<not> is_failure_envelope (RouteCommand sample_lib sample_engine ''actor_list'' [])"
    by blast
  with e r s show ?thesis
    by blast
qed

section \<open>The hand-over to the game thread\<close>

lemma ExecuteCommand_game_thread:
  "snd (ExecuteCommand lib e progress gt cmd p) =
     GameThread_run (progress 30) (AsyncTask gt (cmd, p))"
  by (simp add: ExecuteCommand_def Let_def)

lemma ExecuteCommand_timeout:
  assumes "progress 30 \<le> length (Pending gt)"
  shows "ExecuteCommand lib e progress gt cmd p =
           (Serialize lib (CreateErrorResponse ''TIMEOUT'' ''Command execution timed out''),
            gt\<lparr>Pending := drop (progress 30) (Pending gt) @ [(cmd, p)],
               Executed := Executed gt @ take (progress 30) (Pending gt)\<rparr>)"
  using assms by (simp add: ExecuteCommand_def AsyncTask_def GameThread_run_def Let_def)

lemma ExecuteCommand_ready:
  assumes "length (Pending gt) < progress 30"
  shows "ExecuteCommand lib e progress gt cmd p =
           (Serialize lib (RouteCommand lib e cmd p),
            gt\<lparr>Pending := [], Executed := Executed gt @ Pending gt @ [(cmd, p)]\<rparr>)"
  using assms
  by (simp add: ExecuteCommand_def AsyncTask_def GameThread_run_def TaskResult_def Let_def)

text \<open>
  C1, as the code has it. \<^verbatim>\<open>RouteCommand\<close> answers \<open>check_connection\<close> first, before any
  prefix is tried, with the success \<open>{connected: true, engine_version: "5.5",
  plugin_version: "1.0.0"}\<close>, whatever the parameters and the editor are. But
  \<^verbatim>\<open>ExecuteCommand\<close> does not answer it on the calling thread: it submits it to the game
  thread as it does every command, and returns this payload only when the game thread
  runs the task within 30 seconds, the \<open>TIMEOUT\<close> failure otherwise.
\<close>

theorem C1_check_connection:
  assumes "FString_eq lib cmd ''check_connection''"
  shows
    "RouteCommand lib e cmd p =
       [(''success'', JBool True),
        (''data'', JObject [(''connected'', JBool True), (''engine_version'', JString ''5.5''),
                            (''plugin_version'', JString ''1.0.0'')])] \<and>
     is_success_envelope (RouteCommand lib e cmd p) \<and>
     snd (ExecuteCommand lib e progress gt cmd p) =
       GameThread_run (progress 30) (AsyncTask gt (cmd, p)) \<and>
     (length (Pending gt) < progress 30 \<longrightarrow>
        fst (ExecuteCommand lib e progress gt cmd p) = Serialize lib (RouteCommand lib e cmd p) \<and>
        Executed (snd (ExecuteCommand lib e progress gt cmd p)) =
          Executed gt @ Pending gt @ [(cmd, p)]) \<and>
     (progress 30 \<le> length (Pending gt) \<longrightarrow>
        fst (ExecuteCommand lib e progress gt cmd p) =
          Serialize lib (CreateErrorResponse ''TIMEOUT'' ''Command execution timed out''))"
proof (intro conjI impI)
  show r: "RouteCommand lib e cmd p =
       [(''success'', JBool True),
        (''data'', JObject [(''connected'', JBool True), (''engine_version'', JString ''5.5''),
                            (''plugin_version'', JString ''1.0.0'')])]"
    using assms by (simp add: check_connection_answer CreateSuccessResponse_eval)
  show "is_success_envelope (RouteCommand lib e cmd p)"
    using assms by (simp add: check_connection_answer success_CreateSuccessResponse)
  show "snd (ExecuteCommand lib e progress gt cmd p) =
       GameThread_run (progress 30) (AsyncTask gt (cmd, p))"
    by (rule ExecuteCommand_game_thread)
next
  assume "length (Pending gt) < progress 30"
  from ExecuteCommand_ready [of gt progress lib e cmd p] this
  show "fst (ExecuteCommand lib e progress gt cmd p) = Serialize lib (RouteCommand lib e cmd p)"
    and "Executed (snd (ExecuteCommand lib e progress gt cmd p)) =
          Executed gt @ Pending gt @ [(cmd, p)]"
    by simp_all
next
  assume "progress 30 \<le> length (Pending gt)"
  from ExecuteCommand_timeout [of progress gt lib e cmd p] this
  show "fst (ExecuteCommand lib e progress gt cmd p) =
          Serialize lib (CreateErrorResponse ''TIMEOUT'' ''Command execution timed out'')"
    by simp
qed

theorem C1_check_connection_witness:
  \<open>FString_eq sample_lib ''check_connection'' ''check_connection'' \<and>
   (0::nat) < 1 \<and>
   ExecuteCommand sample_lib sample_engine (\<lambda>t. 1) idle_game_thread ''check_connection''
       [(''anything'', JNumber 7)] =
     (''{"success":true,"data":{"connected":true,"engine_version":"5.5","plugin_version":"1.0.0"}}'',
      \<lparr>Pending = [], Executed = [(''check_connection'', [(''anything'', JNumber 7)])]\<rparr>)\<close>
proof -
  have h: "FString_eq sample_lib ''check_connection'' ''check_connection''"
    by (simp add: FString_eq_def)
  have l: "length (Pending idle_game_thread) < (\<lambda>t::nat. 1::nat) 30"
    by (simp add: idle_game_thread_def)
  note t = C1_check_connection [OF h, of sample_engine "[(''anything'', JNumber 7)]"
      "\<lambda>t. 1" idle_game_thread]
  from t l have
    "snd (ExecuteCommand sample_lib sample_engine (\<lambda>t. 1) idle_game_thread ''check_connection''
       [(''anything'', JNumber 7)]) =
     \<lparr>Pending = [], Executed = [(''check_connection'', [(''anything'', JNumber 7)])]\<rparr>"
    by (simp add: GameThread_run_def AsyncTask_def idle_game_thread_def)
  moreover from t l have
    \<open>fst (ExecuteCommand sample_lib sample_engine (\<lambda>t. 1) idle_game_thread ''check_connection''
       [(''anything'', JNumber 7)]) =
     ''{"success":true,"data":{"connected":true,"engine_version":"5.5","plugin_version":"1.0.0"}}''\<close>
    by (simp add: sample_lib_def json_quote_def json_escape_def)
  ultimately show ?thesis
    using h by (simp add: prod_eq_iff)
qed

text \<open>
  The claim as stated fails: with the game thread blocked, \<open>check_connection\<close> is not
  answered by the calling thread. The caller gets the \<open>TIMEOUT\<close> failure and the command
  sits in the game thread's queue.
\<close>

theorem C1_blocked_game_thread:
  \<open>ExecuteCommand sample_lib sample_engine (\<lambda>t. 0) idle_game_thread ''check_connection'' [] =
     (''{"success":false,"error_code":"TIMEOUT","error":"Command execution timed out"}'',
      \<lparr>Pending = [(''check_connection'', [])], Executed = []\<rparr>)\<close>
  by (simp add: ExecuteCommand_def AsyncTask_def GameThread_run_def idle_game_thread_def
      sample_lib_def CreateErrorResponse_eval json_quote_def json_escape_def)

text \<open>
  C3. When the game thread has not run the submitted task within 30 seconds,
  \<^verbatim>\<open>ExecuteCommand\<close> returns the serialized \<open>TIMEOUT\<close> failure; the task is not withdrawn:
  it is the last of the queue, and once the game thread gets through the queue it has run
  it, with nobody waiting for its result. When the game thread runs the task within 30
  seconds, \<^verbatim>\<open>ExecuteCommand\<close> returns the string the task produced, unchanged.
\<close>

theorem C3_timeout:
  "(progress 30 \<le> length (Pending gt) \<longrightarrow>
      fst (ExecuteCommand lib e progress gt cmd p) =
        Serialize lib (CreateErrorResponse ''TIMEOUT'' ''Command execution timed out'') \<and>
      Pending (snd (ExecuteCommand lib e progress gt cmd p)) =
        drop (progress 30) (Pending gt) @ [(cmd, p)] \<and>
      Executed (snd (ExecuteCommand lib e progress gt cmd p)) =
        Executed gt @ take (progress 30) (Pending gt) \<and>
      Executed (GameThread_run (length (Pending (snd (ExecuteCommand lib e progress gt cmd p))))
                  (snd (ExecuteCommand lib e progress gt cmd p))) =
        Executed gt @ Pending gt @ [(cmd, p)]) \<and>
   (length (Pending gt) < progress 30 \<longrightarrow>
      fst (ExecuteCommand lib e progress gt cmd p) = TaskResult lib e (cmd, p) \<and>
      TaskResult lib e (cmd, p) = Serialize lib (RouteCommand lib e cmd p) \<and>
      Pending (snd (ExecuteCommand lib e progress gt cmd p)) = [] \<and>
      Executed (snd (ExecuteCommand lib e progress gt cmd p)) =
        Executed gt @ Pending gt @ [(cmd, p)]) \<and>
   is_failure_envelope (CreateErrorResponse ''TIMEOUT'' ''Command execution timed out'') \<and>
   error_code_of (CreateErrorResponse ''TIMEOUT'' ''Command execution timed out'') =
     Some ''TIMEOUT''"
proof (intro conjI impI)
  assume late: "progress 30 \<le> length (Pending gt)"
  from ExecuteCommand_timeout [of progress gt lib e cmd p] late
  have t: "ExecuteCommand lib e progress gt cmd p =
           (Serialize lib (CreateErrorResponse ''TIMEOUT'' ''Command execution timed out''),
            gt\<lparr>Pending := drop (progress 30) (Pending gt) @ [(cmd, p)],
               Executed := Executed gt @ take (progress 30) (Pending gt)\<rparr>)"
    by simp
  from t show "fst (ExecuteCommand lib e progress gt cmd p) =
        Serialize lib (CreateErrorResponse ''TIMEOUT'' ''Command execution timed out'')"
    by simp
  from t show "Pending (snd (ExecuteCommand lib e progress gt cmd p)) =
        drop (progress 30) (Pending gt) @ [(cmd, p)]"
    by simp
  from t show "Executed (snd (ExecuteCommand lib e progress gt cmd p)) =
        Executed gt @ take (progress 30) (Pending gt)"
    by simp
  have "take (progress 30) (Pending gt) @ drop (progress 30) (Pending gt) = Pending gt"
    by (rule append_take_drop_id)
  with t show "Executed (GameThread_run (length (Pending (snd (ExecuteCommand lib e progress gt cmd p))))
                  (snd (ExecuteCommand lib e progress gt cmd p))) =
        Executed gt @ Pending gt @ [(cmd, p)]"
    by (simp add: GameThread_run_def)
next
  assume ready: "length (Pending gt) < progress 30"
  from ExecuteCommand_ready [of gt progress lib e cmd p] ready
  have t: "ExecuteCommand lib e progress gt cmd p =
           (Serialize lib (RouteCommand lib e cmd p),
            gt\<lparr>Pending := [], Executed := Executed gt @ Pending gt @ [(cmd, p)]\<rparr>)"
    by simp
  show "TaskResult lib e (cmd, p) = Serialize lib (RouteCommand lib e cmd p)"
    by (simp add: TaskResult_def)
  with t show "fst (ExecuteCommand lib e progress gt cmd p) = TaskResult lib e (cmd, p)"
    by simp
  from t show "Pending (snd (ExecuteCommand lib e progress gt cmd p)) = []"
    by simp
  from t show "Executed (snd (ExecuteCommand lib e progress gt cmd p)) =
        Executed gt @ Pending gt @ [(cmd, p)]"
    by simp
next
  show "is_failure_envelope (CreateErrorResponse ''TIMEOUT'' ''Command execution timed out'')"
    by (rule failure_CreateErrorResponse)
  show "error_code_of (CreateErrorResponse ''TIMEOUT'' ''Command execution timed out'') =
     Some ''TIMEOUT''"
    by (simp add: CreateErrorResponse_eval error_code_of_def)
qed

theorem C3_timeout_witness:
  \<open>(\<lambda>t::nat. 0::nat) 30 \<le> length (Pending idle_game_thread) \<and>
   fst (ExecuteCommand sample_lib sample_engine (\<lambda>t. 0) idle_game_thread ''actor_spawn'' []) =
     ''{"success":false,"error_code":"TIMEOUT","error":"Command execution timed out"}'' \<and>
   Pending (snd (ExecuteCommand sample_lib sample_engine (\<lambda>t. 0) idle_game_thread
                   ''actor_spawn'' [])) = [(''actor_spawn'', [])] \<and>
   Executed (GameThread_run 1
      (snd (ExecuteCommand sample_lib sample_engine (\<lambda>t. 0) idle_game_thread ''actor_spawn'' [])))
     = [(''actor_spawn'', [])]\<close>
proof -
  have h: "(\<lambda>t::nat. 0::nat) 30 \<le> length (Pending idle_game_thread)"
    by simp
  note t = C3_timeout [of "\<lambda>t. 0" idle_game_thread sample_lib sample_engine
      "''actor_spawn''" "[]"]
  from t h have a:
    \<open>fst (ExecuteCommand sample_lib sample_engine (\<lambda>t. 0) idle_game_thread ''actor_spawn'' []) =
     ''{"success":false,"error_code":"TIMEOUT","error":"Command execution timed out"}''\<close>
    by (simp add: sample_lib_def CreateErrorResponse_eval json_quote_def json_escape_def)
  from t h have b:
    "Pending (snd (ExecuteCommand sample_lib sample_engine (\<lambda>t. 0) idle_game_thread
                   ''actor_spawn'' [])) = [(''actor_spawn'', [])]"
    by (simp add: idle_game_thread_def)
  from t h have c:
    "Executed (GameThread_run 1
      (snd (ExecuteCommand sample_lib sample_engine (\<lambda>t. 0) idle_game_thread ''actor_spawn'' [])))
     = [(''actor_spawn'', [])]"
    by (simp add: ExecuteCommand_def AsyncTask_def GameThread_run_def idle_game_thread_def)
  from h a b c show ?thesis
    by blast
qed

section \<open>The connection server\<close>

lemma HandleClientConnection_ignores_Wait:
  "HandleClientConnection lib e progress gt Bridge Memory (Some (sock\<lparr>ReadableWithin := r\<rparr>)) =
   HandleClientConnection lib e progress gt Bridge Memory (Some sock)"
  by (simp add: HandleClientConnection_def)




text \<open>
  C6. The handler sets the socket to blocking mode and waits up to 5 seconds for it to
  become readable, but it does not look at the outcome of the wait: it calls \<^verbatim>\<open>Recv\<close>
  whether or not the socket became readable. On a socket that was not readable within
  5 seconds and delivers a request afterwards, the request is read, processed and
  answered; the accept loop closes the socket after that.
\<close>

theorem C6_wait_outcome_unused:
  \<open>fst (Run sample_lib sample_engine idle_game_thread
          [\<lparr>StopTaskCounter = 0, ListenerIsValid = True,
            Poll = Accepted (Some \<lparr>ReadableWithin = (\<lambda>t. False),
                                   RecvData = Some ''{"command":"actor_delete"}''\<rparr>),
            GameThreadProgress = (\<lambda>t. 1),
            BufferMemory = replicate 65536 (CHR ''#'') @ [CHR 0x00]\<rparr>])
   = [SetNonBlocking False, Wait 5, Recv 65536,
      Send ''{"success":false,"error_code":"NOT_IMPLEMENTED","error":"DeleteActor not yet implemented"}'',
      Close, DestroySocket]\<close>
  by (simp add: HandleClientConnection_def ProcessRequest_def sample_lib_def
      sample_Deserialize_def TryGetStringField_def GetObjectField_def ExecuteCommand_def
      AsyncTask_def GameThread_run_def idle_game_thread_def TaskResult_def RouteCommand_def
      FString_eq_def StartsWith_def FActorCommands_HandleCommand_def
      FActorCommands_DeleteActor_def CreateError_eval json_quote_def json_escape_def)


section \<open>The life cycle of the bridge\<close>

lemma Shutdown_stopped: "\<not> bIsRunning s \<Longrightarrow> Shutdown s = s"
  by (simp add: Shutdown_def)

lemma Shutdown_stops: "\<not> bIsRunning (Shutdown s)"
  by (simp add: Shutdown_def DeletePortFile_def Let_def split: option.splits)

lemma Initialize_running: "bIsRunning s \<Longrightarrow> Initialize env s = s"
  by (simp add: Initialize_def)

lemma Combine_Port_txt:
  "Combine [dir, ''Saved'', ''Config'', ''GRID'', ''Port.txt''] \<noteq> []"
  by simp

text \<open>The state a call of \<^verbatim>\<open>Initialize\<close> reaches in a stopped bridge, case by case.\<close>

lemma Initialize_started:
  assumes "\<not> bIsRunning s" "SubsystemOk env" "CreateSocketOk env" "BindOk env" "ListenOk env"
    "ThreadOk env"
  shows "Initialize env s =
           s\<lparr>bIsRunning := True, ServerThread := True, ServerRunnable := Some 0,
             ListenerSocket := Some \<lparr>SockBound = True, SockListening = True, SockClosed = False\<rparr>,
             Port := AssignedPort env,
             PortFilePath := Combine [ProjectDir env, ''Saved'', ''Config'', ''GRID'', ''Port.txt''],
             Files := (Files s)(Combine [ProjectDir env, ''Saved'', ''Config'', ''GRID'', ''Port.txt'']
                          \<mapsto> FromInt (AssignedPort env)),
             BindCalls := BindCalls s + 1\<rparr>"
  using assms by (simp add: Initialize_def WritePortFile_def Let_def)

lemma Initialize_thread_failed:
  assumes "\<not> bIsRunning s" "SubsystemOk env" "CreateSocketOk env" "BindOk env" "ListenOk env"
    "\<not> ThreadOk env"
  shows "Initialize env s =
           s\<lparr>ServerThread := False, ServerRunnable := Some 0,
             ListenerSocket := Some \<lparr>SockBound = True, SockListening = True, SockClosed = False\<rparr>,
             Port := AssignedPort env,
             PortFilePath := Combine [ProjectDir env, ''Saved'', ''Config'', ''GRID'', ''Port.txt''],
             Files := (Files s)(Combine [ProjectDir env, ''Saved'', ''Config'', ''GRID'', ''Port.txt'']
                          \<mapsto> FromInt (AssignedPort env)),
             BindCalls := BindCalls s + 1\<rparr>"
  using assms by (simp add: Initialize_def WritePortFile_def Shutdown_def Let_def)

lemma Initialize_running_iff:
  assumes "\<not> bIsRunning s"
  shows "bIsRunning (Initialize env s) =
           (SubsystemOk env \<and> CreateSocketOk env \<and> BindOk env \<and> ListenOk env \<and> ThreadOk env)"
  using assms by (auto simp add: Initialize_def WritePortFile_def Shutdown_def Let_def)

lemma Shutdown_of_started:
  assumes "\<not> bIsRunning s" "bIsRunning (Initialize env s)"
  shows "Files (Shutdown (Initialize env s))
           (Combine [ProjectDir env, ''Saved'', ''Config'', ''GRID'', ''Port.txt'']) = None"
    and "ListenerSocket (Shutdown (Initialize env s)) = None"
    and "\<not> ServerThread (Shutdown (Initialize env s))"
proof -
  from assms Initialize_running_iff [of s env]
  have ok: "SubsystemOk env" "CreateSocketOk env" "BindOk env" "ListenOk env" "ThreadOk env"
    by simp_all
  note st = Initialize_started [OF assms(1) ok]
  show "Files (Shutdown (Initialize env s))
           (Combine [ProjectDir env, ''Saved'', ''Config'', ''GRID'', ''Port.txt'']) = None"
    unfolding st by (simp add: Shutdown_def DeletePortFile_def Let_def)
  show "ListenerSocket (Shutdown (Initialize env s)) = None"
    unfolding st by (simp add: Shutdown_def DeletePortFile_def Let_def)
  show "\<not> ServerThread (Shutdown (Initialize env s))"
    unfolding st by (simp add: Shutdown_def DeletePortFile_def Let_def)
qed

text \<open>
  C10. When \<^verbatim>\<open>Initialize\<close> gets through bind and listen and writes the discovery file,
  and the server thread is then not created, the call of \<^verbatim>\<open>Shutdown\<close> on that path
  changes nothing, because \<open>bIsRunning\<close> is still false: the bridge is left not running,
  with the discovery file on disk and the listener socket bound, listening and open.
\<close>

theorem C10_thread_failure_leaves_file:
  assumes "\<not> bIsRunning s" "SubsystemOk env" "CreateSocketOk env" "BindOk env" "ListenOk env"
    "\<not> ThreadOk env"
  shows
    "\<not> IsRunning (Initialize env s) \<and>
     Files (Initialize env s)
         (Combine [ProjectDir env, ''Saved'', ''Config'', ''GRID'', ''Port.txt'']) =
       Some (FromInt (AssignedPort env)) \<and>
     ListenerSocket (Initialize env s) =
       Some \<lparr>SockBound = True, SockListening = True, SockClosed = False\<rparr> \<and>
     GetPort (Initialize env s) = AssignedPort env \<and>
     Shutdown (Initialize env s) = Initialize env s"
proof -
  note st = Initialize_thread_failed [OF assms]
  have n: "\<not> bIsRunning (Initialize env s)"
    using assms(1) unfolding st by simp
  have "Shutdown (Initialize env s) = Initialize env s"
    using n by (rule Shutdown_stopped)
  moreover have "Files (Initialize env s)
         (Combine [ProjectDir env, ''Saved'', ''Config'', ''GRID'', ''Port.txt'']) =
       Some (FromInt (AssignedPort env))"
    unfolding st by simp
  moreover have "ListenerSocket (Initialize env s) =
       Some \<lparr>SockBound = True, SockListening = True, SockClosed = False\<rparr>"
    unfolding st by simp
  moreover have "GetPort (Initialize env s) = AssignedPort env"
    unfolding st by (simp add: GetPort_def)
  ultimately show ?thesis
    using n by (simp add: IsRunning_def)
qed

theorem C10_thread_failure_leaves_file_witness:
  "\<not> bIsRunning (FGRIDBridge Map.empty) \<and> SubsystemOk env_thread_fails \<and>
   CreateSocketOk env_thread_fails \<and> BindOk env_thread_fails \<and> ListenOk env_thread_fails \<and>
   \<not> ThreadOk env_thread_fails \<and>
   \<not> IsRunning (Initialize env_thread_fails (FGRIDBridge Map.empty)) \<and>
   Files (Initialize env_thread_fails (FGRIDBridge Map.empty))
       ''/Game/Saved/Config/GRID/Port.txt'' = Some ''54321'' \<and>
   ListenerSocket (Initialize env_thread_fails (FGRIDBridge Map.empty)) =
     Some \<lparr>SockBound = True, SockListening = True, SockClosed = False\<rparr>"
proof -
  have h: "\<not> bIsRunning (FGRIDBridge Map.empty)" "SubsystemOk env_thread_fails"
    "CreateSocketOk env_thread_fails" "BindOk env_thread_fails" "ListenOk env_thread_fails"
    "\<not> ThreadOk env_thread_fails"
    by (simp_all add: FGRIDBridge_def env_thread_fails_def env_ok_def)
  from C10_thread_failure_leaves_file [OF h] h show ?thesis
    by (simp add: env_thread_fails_def env_ok_def FromInt_def dec_digits.simps)
qed

text \<open>
  Where the server thread is always created, the invariant of the specification holds in
  every reachable state; it follows from a stronger one that also fixes the path of the
  file.
\<close>

lemma reachable_file_invariant:
  assumes "reachable ThreadOk dir s"
  shows "(bIsRunning s \<longrightarrow>
            Port s \<noteq> 0 \<and>
            PortFilePath s = Combine [dir, ''Saved'', ''Config'', ''GRID'', ''Port.txt'']) \<and>
         (Files s (Combine [dir, ''Saved'', ''Config'', ''GRID'', ''Port.txt'']) \<noteq> None)
           = bIsRunning s"
  using assms
proof (induction rule: reachable.induct)
  case (reachable_new files)
  then show ?case
    by (simp add: FGRIDBridge_def)
next
  case (reachable_Initialize s env)
  show ?case
  proof (cases "bIsRunning s")
    case True
    with reachable_Initialize.IH show ?thesis
      by (simp add: Initialize_running)
  next
    case False
    show ?thesis
    proof (cases "SubsystemOk env \<and> CreateSocketOk env \<and> BindOk env \<and> ListenOk env")
      case True
      with False reachable_Initialize.hyps
      have "Initialize env s =
           s\<lparr>bIsRunning := True, ServerThread := True, ServerRunnable := Some 0,
             ListenerSocket := Some \<lparr>SockBound = True, SockListening = True, SockClosed = False\<rparr>,
             Port := AssignedPort env,
             PortFilePath := Combine [ProjectDir env, ''Saved'', ''Config'', ''GRID'', ''Port.txt''],
             Files := (Files s)(Combine [ProjectDir env, ''Saved'', ''Config'', ''GRID'', ''Port.txt'']
                          \<mapsto> FromInt (AssignedPort env)),
             BindCalls := BindCalls s + 1\<rparr>"
        by (simp add: Initialize_started)
      with reachable_Initialize.hyps show ?thesis
        by simp
    next
      case failed: False
      with False have n: "\<not> bIsRunning (Initialize env s)"
        by (auto simp add: Initialize_running_iff)
      from False failed have "Files (Initialize env s) = Files s"
        by (auto simp add: Initialize_def Let_def)
      with n False reachable_Initialize.IH show ?thesis
        by simp
    qed
  qed
next
  case (reachable_Shutdown s)
  show ?case
  proof (cases "bIsRunning s")
    case True
    with reachable_Shutdown.IH
    have "PortFilePath s = Combine [dir, ''Saved'', ''Config'', ''GRID'', ''Port.txt'']"
      by simp
    with True show ?thesis
      by (simp add: Shutdown_def DeletePortFile_def Let_def split: option.splits)
  next
    case False
    with reachable_Shutdown.IH show ?thesis
      by (simp add: Shutdown_stopped)
  qed
qed

lemma invariant_without_thread_failure:
  assumes "reachable ThreadOk dir s"
  shows "BridgeState_invariant dir s"
  using reachable_file_invariant [OF assms] by (auto simp add: BridgeState_invariant_def)

lemma thread_failure_reachable:
  "reachable (\<lambda>env. True) ''/Game/'' (Initialize env_thread_fails (FGRIDBridge Map.empty))"
  by (rule reachable_Initialize [OF reachable_new])
    (simp_all add: env_thread_fails_def env_ok_def)

text \<open>
  C5. The invariant of the specification does not hold in every reachable state: it
  fails on the path of C10. After \<^verbatim>\<open>Initialize\<close> on a new bridge in a host where the
  server thread cannot be created, the port is set and the discovery file exists although
  the bridge is not running.
\<close>

theorem C5_invariant_broken:
  "reachable (\<lambda>env. True) ''/Game/'' (Initialize env_thread_fails (FGRIDBridge Map.empty)) \<and>
   \<not> BridgeState_invariant ''/Game/'' (Initialize env_thread_fails (FGRIDBridge Map.empty))"
proof
  show "reachable (\<lambda>env. True) ''/Game/'' (Initialize env_thread_fails (FGRIDBridge Map.empty))"
    by (rule thread_failure_reachable)
  show "\<not> BridgeState_invariant ''/Game/'' (Initialize env_thread_fails (FGRIDBridge Map.empty))"
    by (simp add: BridgeState_invariant_def Initialize_def env_thread_fails_def env_ok_def
        FGRIDBridge_def WritePortFile_def Shutdown_def Let_def)
qed

text \<open>
  C7, as the code has it. If the first call of \<^verbatim>\<open>Initialize\<close> starts the server, a second
  call changes nothing: the two calls make one call of \<^verbatim>\<open>Bind\<close>, the bridge is running
  and the port is the one the first call got. \<^verbatim>\<open>Shutdown\<close> leaves the bridge stopped, and
  a second call changes nothing. After \<^verbatim>\<open>Shutdown\<close> of a bridge that \<^verbatim>\<open>Initialize\<close> started,
  the discovery file is absent, after the first call and after the second.
\<close>

theorem C7_idempotent:
  "(\<not> bIsRunning s \<and> bIsRunning (Initialize env s) \<longrightarrow>
      Initialize env' (Initialize env s) = Initialize env s \<and>
      BindCalls (Initialize env' (Initialize env s)) = BindCalls s + 1 \<and>
      IsRunning (Initialize env' (Initialize env s)) \<and>
      GetPort (Initialize env' (Initialize env s)) = GetPort (Initialize env s) \<and>
      GetPort (Initialize env s) = AssignedPort env) \<and>
   Shutdown (Shutdown s) = Shutdown s \<and>
   \<not> IsRunning (Shutdown s) \<and>
   (\<not> bIsRunning s \<and> bIsRunning (Initialize env s) \<longrightarrow>
      Files (Shutdown (Initialize env s))
        (Combine [ProjectDir env, ''Saved'', ''Config'', ''GRID'', ''Port.txt'']) = None \<and>
      Files (Shutdown (Shutdown (Initialize env s)))
        (Combine [ProjectDir env, ''Saved'', ''Config'', ''GRID'', ''Port.txt'']) = None)"
proof (intro conjI impI)
  assume a: "\<not> bIsRunning s \<and> bIsRunning (Initialize env s)"
  then have n: "\<not> bIsRunning s" and r: "bIsRunning (Initialize env s)"
    by simp_all
  from n r Initialize_running_iff [of s env]
  have ok: "SubsystemOk env" "CreateSocketOk env" "BindOk env" "ListenOk env" "ThreadOk env"
    by simp_all
  note st = Initialize_started [OF n ok]
  show i: "Initialize env' (Initialize env s) = Initialize env s"
    using r by (rule Initialize_running)
  show "BindCalls (Initialize env' (Initialize env s)) = BindCalls s + 1"
    unfolding i unfolding st by simp
  show "IsRunning (Initialize env' (Initialize env s))"
    unfolding i using r by (simp add: IsRunning_def)
  show "GetPort (Initialize env' (Initialize env s)) = GetPort (Initialize env s)"
    unfolding i by simp
  show "GetPort (Initialize env s) = AssignedPort env"
    unfolding st by (simp add: GetPort_def)
next
  show idem: "Shutdown (Shutdown s) = Shutdown s"
    using Shutdown_stops [of s] by (rule Shutdown_stopped)
  show "\<not> IsRunning (Shutdown s)"
    by (simp add: IsRunning_def Shutdown_stops)
next
  assume a: "\<not> bIsRunning s \<and> bIsRunning (Initialize env s)"
  then have f: "Files (Shutdown (Initialize env s))
        (Combine [ProjectDir env, ''Saved'', ''Config'', ''GRID'', ''Port.txt'']) = None"
    using Shutdown_of_started(1) [of s env] by simp
  then show "Files (Shutdown (Initialize env s))
        (Combine [ProjectDir env, ''Saved'', ''Config'', ''GRID'', ''Port.txt'']) = None" .
  have "Shutdown (Shutdown (Initialize env s)) = Shutdown (Initialize env s)"
    using Shutdown_stops [of "Initialize env s"] by (rule Shutdown_stopped)
  with f show "Files (Shutdown (Shutdown (Initialize env s)))
        (Combine [ProjectDir env, ''Saved'', ''Config'', ''GRID'', ''Port.txt'']) = None"
    by simp
qed

theorem C7_idempotent_witness:
  "\<not> bIsRunning (FGRIDBridge Map.empty) \<and>
   bIsRunning (Initialize env_ok (FGRIDBridge Map.empty)) \<and>
   Initialize env_ok (Initialize env_ok (FGRIDBridge Map.empty)) =
     Initialize env_ok (FGRIDBridge Map.empty) \<and>
   BindCalls (Initialize env_ok (Initialize env_ok (FGRIDBridge Map.empty))) = 1 \<and>
   GetPort (Initialize env_ok (Initialize env_ok (FGRIDBridge Map.empty))) = 54321 \<and>
   Files (Initialize env_ok (FGRIDBridge Map.empty)) ''/Game/Saved/Config/GRID/Port.txt'' =
     Some ''54321'' \<and>
   Files (Shutdown (Shutdown (Initialize env_ok (FGRIDBridge Map.empty))))
     ''/Game/Saved/Config/GRID/Port.txt'' = None"
proof -
  have n: "\<not> bIsRunning (FGRIDBridge Map.empty)"
    by (simp add: FGRIDBridge_def)
  have r: "bIsRunning (Initialize env_ok (FGRIDBridge Map.empty))"
    by (simp add: Initialize_def FGRIDBridge_def env_ok_def WritePortFile_def Let_def)
  have f: "Files (Initialize env_ok (FGRIDBridge Map.empty)) ''/Game/Saved/Config/GRID/Port.txt'' =
     Some ''54321''"
    by (simp add: Initialize_def FGRIDBridge_def env_ok_def WritePortFile_def Let_def
        FromInt_def dec_digits.simps)
  have p: "AssignedPort env_ok = 54321" "ProjectDir env_ok = ''/Game/''"
    "BindCalls (FGRIDBridge Map.empty) = 0"
    by (simp_all add: env_ok_def FGRIDBridge_def)
  note t = C7_idempotent [of "FGRIDBridge Map.empty" env_ok env_ok]
  from t n r have a: "Initialize env_ok (Initialize env_ok (FGRIDBridge Map.empty)) =
     Initialize env_ok (FGRIDBridge Map.empty)"
    by blast
  from t n r have "BindCalls (Initialize env_ok (Initialize env_ok (FGRIDBridge Map.empty))) =
     BindCalls (FGRIDBridge Map.empty) + 1"
    by blast
  with p have b: "BindCalls (Initialize env_ok (Initialize env_ok (FGRIDBridge Map.empty))) = 1"
    by simp
  from t n r have "GetPort (Initialize env_ok (Initialize env_ok (FGRIDBridge Map.empty))) =
     GetPort (Initialize env_ok (FGRIDBridge Map.empty)) \<and>
     GetPort (Initialize env_ok (FGRIDBridge Map.empty)) = AssignedPort env_ok"
    by blast
  with p have c: "GetPort (Initialize env_ok (Initialize env_ok (FGRIDBridge Map.empty))) = 54321"
    by simp
  from t n r have "Files (Shutdown (Shutdown (Initialize env_ok (FGRIDBridge Map.empty))))
     (Combine [ProjectDir env_ok, ''Saved'', ''Config'', ''GRID'', ''Port.txt'']) = None"
    by blast
  with p have d: "Files (Shutdown (Shutdown (Initialize env_ok (FGRIDBridge Map.empty))))
     ''/Game/Saved/Config/GRID/Port.txt'' = None"
    by simp
  from n r a b c f d show ?thesis
    by blast
qed

text \<open>
  The claim as stated fails when the first call does not start the server: if the bind
  succeeds and the listen fails, the next call of \<^verbatim>\<open>Initialize\<close> binds again, so that two
  calls in a row make two calls of \<^verbatim>\<open>Bind\<close>, and the port changes.
\<close>

theorem C7_two_binds:
  "BindCalls (Initialize env_ok (Initialize env_listen_fails (FGRIDBridge Map.empty))) = 2 \<and>
   \<not> IsRunning (Initialize env_listen_fails (FGRIDBridge Map.empty)) \<and>
   GetPort (Initialize env_listen_fails (FGRIDBridge Map.empty)) = 50000 \<and>
   GetPort (Initialize env_ok (Initialize env_listen_fails (FGRIDBridge Map.empty))) = 54321"
  by (simp add: Initialize_def FGRIDBridge_def env_ok_def env_listen_fails_def
      WritePortFile_def Let_def IsRunning_def GetPort_def)

text \<open>
  C8, as the code has it. After \<^verbatim>\<open>Initialize\<close> in a stopped bridge with the socket created
  and both the bind and the listen successful, the discovery file
  \<open>Saved/Config/GRID/Port.txt\<close> under the project directory exists and holds the decimal
  form of the bound port, which is the value of \<^verbatim>\<open>GetPort\<close>. After \<^verbatim>\<open>Shutdown\<close> of the
  running bridge the file does not exist.
\<close>

theorem C8_discovery_file:
  assumes "\<not> bIsRunning s" "SubsystemOk env" "CreateSocketOk env" "BindOk env" "ListenOk env"
  shows
    "Files (Initialize env s)
         (Combine [ProjectDir env, ''Saved'', ''Config'', ''GRID'', ''Port.txt'']) =
       Some (FromInt (GetPort (Initialize env s))) \<and>
     GetPort (Initialize env s) = AssignedPort env \<and>
     PortFilePath (Initialize env s) =
       Combine [ProjectDir env, ''Saved'', ''Config'', ''GRID'', ''Port.txt''] \<and>
     (bIsRunning (Initialize env s) \<longrightarrow>
        Files (Shutdown (Initialize env s))
          (Combine [ProjectDir env, ''Saved'', ''Config'', ''GRID'', ''Port.txt'']) = None)"
proof (cases "ThreadOk env")
  case True
  note st = Initialize_started [OF assms True]
  have "bIsRunning (Initialize env s)"
    unfolding st by simp
  from Shutdown_of_started(1) [OF assms(1) this]
  have "Files (Shutdown (Initialize env s))
          (Combine [ProjectDir env, ''Saved'', ''Config'', ''GRID'', ''Port.txt'']) = None" .
  moreover have "Files (Initialize env s)
         (Combine [ProjectDir env, ''Saved'', ''Config'', ''GRID'', ''Port.txt'']) =
       Some (FromInt (GetPort (Initialize env s)))"
    unfolding st by (simp add: GetPort_def)
  moreover have "GetPort (Initialize env s) = AssignedPort env"
    unfolding st by (simp add: GetPort_def)
  moreover have "PortFilePath (Initialize env s) =
       Combine [ProjectDir env, ''Saved'', ''Config'', ''GRID'', ''Port.txt'']"
    unfolding st by simp
  ultimately show ?thesis
    by simp
next
  case False
  note st = Initialize_thread_failed [OF assms False]
  have "\<not> bIsRunning (Initialize env s)"
    using assms(1) unfolding st by simp
  moreover have "Files (Initialize env s)
         (Combine [ProjectDir env, ''Saved'', ''Config'', ''GRID'', ''Port.txt'']) =
       Some (FromInt (GetPort (Initialize env s)))"
    unfolding st by (simp add: GetPort_def)
  moreover have "GetPort (Initialize env s) = AssignedPort env"
    unfolding st by (simp add: GetPort_def)
  moreover have "PortFilePath (Initialize env s) =
       Combine [ProjectDir env, ''Saved'', ''Config'', ''GRID'', ''Port.txt'']"
    unfolding st by simp
  ultimately show ?thesis
    by simp
qed

theorem C8_discovery_file_witness:
  "\<not> bIsRunning (FGRIDBridge Map.empty) \<and> SubsystemOk env_ok \<and> CreateSocketOk env_ok \<and>
   BindOk env_ok \<and> ListenOk env_ok \<and>
   Files (Initialize env_ok (FGRIDBridge Map.empty)) ''/Game/Saved/Config/GRID/Port.txt'' =
     Some ''54321'' \<and>
   GetPort (Initialize env_ok (FGRIDBridge Map.empty)) = 54321 \<and>
   bIsRunning (Initialize env_ok (FGRIDBridge Map.empty)) \<and>
   Files (Shutdown (Initialize env_ok (FGRIDBridge Map.empty)))
     ''/Game/Saved/Config/GRID/Port.txt'' = None"
proof -
  have h: "\<not> bIsRunning (FGRIDBridge Map.empty)" "SubsystemOk env_ok" "CreateSocketOk env_ok"
    "BindOk env_ok" "ListenOk env_ok"
    by (simp_all add: FGRIDBridge_def env_ok_def)
  have r: "bIsRunning (Initialize env_ok (FGRIDBridge Map.empty))"
    by (simp add: Initialize_def FGRIDBridge_def env_ok_def WritePortFile_def Let_def)
  have p: "AssignedPort env_ok = 54321" "ProjectDir env_ok = ''/Game/''"
    by (simp_all add: env_ok_def)
  from C8_discovery_file [OF h] h r p show ?thesis
    by (simp add: FromInt_def dec_digits.simps)
qed

text \<open>
  The claim as stated fails when the bind succeeds and the listen fails: \<^verbatim>\<open>Initialize\<close>
  returns before the discovery file is written.
\<close>

theorem C8_listen_failure_no_file:
  "BindOk env_listen_fails \<and>
   GetPort (Initialize env_listen_fails (FGRIDBridge Map.empty)) = 50000 \<and>
   Files (Initialize env_listen_fails (FGRIDBridge Map.empty))
     ''/Game/Saved/Config/GRID/Port.txt'' = None \<and>
   Combine [ProjectDir env_listen_fails, ''Saved'', ''Config'', ''GRID'', ''Port.txt''] =
     ''/Game/Saved/Config/GRID/Port.txt''"
  by (simp add: Initialize_def FGRIDBridge_def env_ok_def env_listen_fails_def GetPort_def Let_def)

end
